theory Spec2Isabelle
  imports Main "HOL-Library.Word"
begin

unbundle bit_operations_syntax

section \<open>The data the transformer reads and writes\<close>

text \<open>
  The transformer asks the TypeScript type checker about a type and builds a syntax node (an
  object or array literal) from the answers. The type checker and the node factory belong to
  the \<^verbatim>\<open>typescript\<close> package. A type is an object of the compiler; types refer to each other
  (a property's type, a union's members), possibly in a cycle, so the model keeps them in a
  store: a reference is a number, and the type checker \<open>tc\<close> maps a reference to the facts the
  transformer reads from that type.
\<close>

subsection \<open>JavaScript values and the nodes of the output\<close>

text \<open>
  \<open>JNumber s\<close> is the JavaScript number \<^verbatim>\<open>Number(s)\<close>, kept as the decimal text it is read
  from: the model never computes with numbers. \<open>JOther\<close> is a value that is neither a
  primitive nor \<^verbatim>\<open>undefined\<close> (a function or an object).
\<close>

datatype jsval = JString string | JNumber string | JBoolean bool | JUndefined | JOther

text \<open>
  \<open>ObjectLiteral\<close> is \<^verbatim>\<open>ts.createObjectLiteral(properties)\<close>, each property a
  \<^verbatim>\<open>ts.createPropertyAssignment(name, initializer)\<close>; \<open>ArrayLiteral\<close> is
  \<^verbatim>\<open>ts.createArrayLiteral(elements)\<close>; \<open>Literal v\<close> is \<^verbatim>\<open>ts.createLiteral(v)\<close>.
  A property assignment keeps its name as an identifier whose \<^verbatim>\<open>escapedText\<close> is the name with
  one more underscore in front when it starts with two: that map is injective and leaves
  \<^verbatim>\<open>"props"\<close> alone, so the model compares the names themselves.
\<close>

datatype expr =
    ObjectLiteral "(string \<times> expr) list"
  | ArrayLiteral "expr list"
  | Literal jsval

subsection \<open>What the type checker answers\<close>

type_synonym tyref = nat

record jsDocTagInfo =
  tag_name :: string
  tag_text :: "string option"

record tsSymbol =
  symbol_name :: string
  symbol_jsDocTags :: "jsDocTagInfo list"

datatype tsDeclaration = Declaration (questionToken: bool)

text \<open>
  A property symbol of \<^verbatim>\<open>tc.getPropertiesOfType(type)\<close>. \<open>prop_typeAtLocation\<close> is
  \<^verbatim>\<open>tc.getTypeOfSymbolAtLocation(property, property.declarations[0])\<close>, \<open>prop_type\<close> is
  \<^verbatim>\<open>property.type\<close>, \<open>prop_jsDocTags\<close> is \<^verbatim>\<open>property.getJsDocTags()\<close>.
\<close>

record property =
  prop_name :: string
  prop_declarations :: "tsDeclaration list option"
  prop_type :: "tyref option"
  prop_typeAtLocation :: tyref
  prop_jsDocTags :: "jsDocTagInfo list"

text \<open>
  A type. \<open>type_value\<close> and \<open>intrinsicName\<close> are \<open>None\<close> when the type object has no own
  property of that name. \<open>types\<close> is the member list of a union, intersection or enum type.
  \<open>isArrayType\<close> is \<^verbatim>\<open>tc.isArrayType(type)\<close>, \<open>numberIndexInfo\<close> and \<open>stringIndexInfo\<close> say
  whether \<^verbatim>\<open>tc.getIndexInfoOfType\<close> finds an index signature of that kind, \<open>typeToString\<close>
  is \<^verbatim>\<open>tc.typeToString(type)\<close>, \<open>propertiesOfType\<close> is \<^verbatim>\<open>tc.getPropertiesOfType(type)\<close>.
\<close>

record tsType =
  flags :: "32 word"
  objectFlags :: "32 word"
  symbol :: "tsSymbol option"
  aliasSymbol :: "tsSymbol option"
  type_value :: "jsval option"
  intrinsicName :: "string option"
  types :: "tyref list"
  typeArguments :: "tyref list option"
  isArrayType :: bool
  numberIndexInfo :: bool
  stringIndexInfo :: bool
  typeToString :: string
  propertiesOfType :: "property list"

type_synonym typeChecker = "tyref \<Rightarrow> tsType"

subsection \<open>The flags of the compiler\<close>

text \<open>
  \<^verbatim>\<open>ts.TypeFlags\<close> and \<^verbatim>\<open>ts.ObjectFlags\<close> are enums of the \<^verbatim>\<open>typescript\<close> package, with
  the values the package gives them (the releases that still have
  \<^verbatim>\<open>ts.createObjectLiteral\<close>).
\<close>

definition TypeFlags_Any :: "32 word" where "TypeFlags_Any = 1"
definition TypeFlags_String :: "32 word" where "TypeFlags_String = 4"
definition TypeFlags_Number :: "32 word" where "TypeFlags_Number = 8"
definition TypeFlags_Boolean :: "32 word" where "TypeFlags_Boolean = 16"
definition TypeFlags_Enum :: "32 word" where "TypeFlags_Enum = 32"
definition TypeFlags_StringLiteral :: "32 word" where "TypeFlags_StringLiteral = 128"
definition TypeFlags_NumberLiteral :: "32 word" where "TypeFlags_NumberLiteral = 256"
definition TypeFlags_BooleanLiteral :: "32 word" where "TypeFlags_BooleanLiteral = 512"
definition TypeFlags_EnumLiteral :: "32 word" where "TypeFlags_EnumLiteral = 1024"
definition TypeFlags_BigIntLiteral :: "32 word" where "TypeFlags_BigIntLiteral = 2048"
definition TypeFlags_ESSymbol :: "32 word" where "TypeFlags_ESSymbol = 4096"
definition TypeFlags_Undefined :: "32 word" where "TypeFlags_Undefined = 32768"
definition TypeFlags_Null :: "32 word" where "TypeFlags_Null = 65536"
definition TypeFlags_Never :: "32 word" where "TypeFlags_Never = 131072"
definition TypeFlags_Object :: "32 word" where "TypeFlags_Object = 524288"
definition TypeFlags_Union :: "32 word" where "TypeFlags_Union = 1048576"
definition TypeFlags_Intersection :: "32 word" where "TypeFlags_Intersection = 2097152"

definition TypeFlags_Literal :: "32 word" where
  "TypeFlags_Literal =
     TypeFlags_StringLiteral OR TypeFlags_NumberLiteral OR TypeFlags_BigIntLiteral
       OR TypeFlags_BooleanLiteral"
definition TypeFlags_StringLike :: "32 word" where
  "TypeFlags_StringLike = TypeFlags_String OR TypeFlags_StringLiteral"
definition TypeFlags_NumberLike :: "32 word" where
  "TypeFlags_NumberLike = TypeFlags_Number OR TypeFlags_NumberLiteral OR TypeFlags_Enum"
definition TypeFlags_BooleanLike :: "32 word" where
  "TypeFlags_BooleanLike = TypeFlags_Boolean OR TypeFlags_BooleanLiteral"
definition TypeFlags_EnumLike :: "32 word" where
  "TypeFlags_EnumLike = TypeFlags_Enum OR TypeFlags_EnumLiteral"

definition ObjectFlags_Interface :: "32 word" where "ObjectFlags_Interface = 2"
definition ObjectFlags_Reference :: "32 word" where "ObjectFlags_Reference = 4"

text \<open>\<^verbatim>\<open>flags & mask\<close> as a condition: the result is truthy when it is not zero.\<close>

definition has_flag :: "32 word \<Rightarrow> 32 word \<Rightarrow> bool" where
  "has_flag f m = (f AND m \<noteq> 0)"

subsection \<open>Results: a value, an exception, or no answer yet\<close>

text \<open>
  \<open>Throw UnknownType\<close> is \<^verbatim>\<open>throw new Error("Unknown type")\<close>; \<open>Throw TypeError\<close> is the
  exception JavaScript raises when the code reads a property of \<^verbatim>\<open>undefined\<close>. Nothing in
  the transformer catches an exception. The recursion of \<^verbatim>\<open>parseType\<close> need not end, so the
  model counts the nested calls of \<^verbatim>\<open>parseType\<close> it may still make: \<open>OutOfFuel\<close> says that the
  count was too small. A call of the program returns \<open>r\<close> when some count gives \<open>r\<close>, and it
  never returns when every count gives \<open>OutOfFuel\<close>.
\<close>

datatype error = UnknownType | TypeError

datatype 'a result = OutOfFuel | Throw error | Return 'a

definition bind :: "'a result \<Rightarrow> ('a \<Rightarrow> 'b result) \<Rightarrow> 'b result" where
  "bind m f = (case m of OutOfFuel \<Rightarrow> OutOfFuel | Throw e \<Rightarrow> Throw e | Return x \<Rightarrow> f x)"

text \<open>
  \<^verbatim>\<open>xs.map(callback)\<close> for a callback that may change the state \<open>s\<close> (the history array),
  may throw and may call \<^verbatim>\<open>parseType\<close>.
\<close>

fun map_result :: "('a \<Rightarrow> 's \<Rightarrow> ('b \<times> 's) result) \<Rightarrow> 'a list \<Rightarrow> 's \<Rightarrow> ('b list \<times> 's) result" where
  "map_result f [] s = Return ([], s)"
| "map_result f (x # xs) s =
     bind (f x s) (\<lambda>(y, s'). bind (map_result f xs s') (\<lambda>(ys, s''). Return (y # ys, s'')))"

text \<open>
  The history array holds \<^verbatim>\<open>objectType.symbol?.name\<close> values: a name, or \<^verbatim>\<open>undefined\<close>
  (\<open>None\<close>) for a type without a symbol. \<^verbatim>\<open>push\<close> appends, \<^verbatim>\<open>pop\<close> removes the last
  element and does nothing to an empty array.
\<close>

type_synonym history = "string option list"

type_synonym parsed = "(expr \<times> history) result"

text \<open>
  The recursive call \<^verbatim>\<open>parseType(type, tc, depth, history, additional, optional)\<close> as the
  functions below receive it; \<^verbatim>\<open>additional\<close> and \<^verbatim>\<open>optional\<close> are only ever tested for
  truthiness, so a missing argument is \<open>False\<close>.
\<close>

type_synonym parser = "tyref \<Rightarrow> nat \<Rightarrow> history \<Rightarrow> bool \<Rightarrow> bool \<Rightarrow> parsed"

section \<open>The full variant (the compiled transformer)\<close>

subsection \<open>Doc-comment tags\<close>

text \<open>
  \<^verbatim>\<open>String(value)\<close>, which \<^verbatim>\<open>RegExp.prototype.test\<close> applies to its argument, on the
  values a tag text can have become.
\<close>

fun js_toString :: "jsval \<Rightarrow> string" where
  "js_toString (JString s) = s"
| "js_toString (JNumber s) = s"
| "js_toString (JBoolean b) = (if b then ''true'' else ''false'')"
| "js_toString JUndefined = ''undefined''"
| "js_toString JOther = ''[object Object]''"

definition is_digit :: "char \<Rightarrow> bool" where
  "is_digit c = (c \<in> set ''0123456789'')"

text \<open>The part \<^verbatim>\<open>([0-9]+([.][0-9]*)?|[.][0-9]+)$\<close> of the pattern, from the current position.\<close>

definition number_body :: "string \<Rightarrow> bool" where
  "number_body s =
     (let ds = takeWhile is_digit s; r = dropWhile is_digit s in
      if ds \<noteq> [] then
        (case r of [] \<Rightarrow> True | c # r' \<Rightarrow> c = CHR ''.'' \<and> list_all is_digit r')
      else
        (case s of [] \<Rightarrow> False | c # r' \<Rightarrow> c = CHR ''.'' \<and> r' \<noteq> [] \<and> list_all is_digit r'))"

text \<open>\<^verbatim>\<open>/^[+-]?([0-9]+([.][0-9]*)?|[.][0-9]+)$/.test(s)\<close>.\<close>

definition number_pattern :: "string \<Rightarrow> bool" where
  "number_pattern s =
     (case s of
        [] \<Rightarrow> False
      | c # r \<Rightarrow> if c = CHR ''+'' \<or> c = CHR ''-'' then number_body r else number_body s)"

text \<open>The body of the callback of \<^verbatim>\<open>parseJSDoc\<close>: the value a tag text becomes.\<close>

definition coerce :: "string \<Rightarrow> jsval" where
  "coerce text0 =
     (let v = JString text0;
          v = (if v = JString ''true'' then JBoolean True else v);
          v = (if v = JString ''false'' then JBoolean False else v);
          v = (if number_pattern (js_toString v) then JNumber (js_toString v) else v)
      in v)"

text \<open>\<^verbatim>\<open>docs.filter(doc => doc.text)\<close> keeps a tag whose text is a non-empty string.\<close>

definition has_text :: "jsDocTagInfo \<Rightarrow> bool" where
  "has_text doc = (case tag_text doc of None \<Rightarrow> False | Some t \<Rightarrow> t \<noteq> [])"

definition parseJSDoc :: "jsDocTagInfo list \<Rightarrow> (string \<times> expr) list" where
  "parseJSDoc docs =
     map (\<lambda>doc. (tag_name doc, Literal (coerce (the (tag_text doc))))) (filter has_text docs)"

subsection \<open>Helper functions\<close>

text \<open>
  \<^verbatim>\<open>object.properties\<close> is an array for an object literal and \<^verbatim>\<open>undefined\<close> for any other
  node, where \<^verbatim>\<open>object.properties.forEach\<close> raises a TypeError.
\<close>

fun has_properties :: "expr \<Rightarrow> bool" where
  "has_properties (ObjectLiteral ps) = True"
| "has_properties _ = False"

fun addProperties :: "expr \<Rightarrow> (string \<times> expr) list \<Rightarrow> expr result" where
  "addProperties (ObjectLiteral ps) combined_properties =
     Return (ObjectLiteral (combined_properties @ ps))"
| "addProperties _ combined_properties = Throw TypeError"

fun addProperty :: "expr \<Rightarrow> string \<Rightarrow> jsval \<Rightarrow> expr result" where
  "addProperty (ObjectLiteral ps) name v = Return (ObjectLiteral (ps @ [(name, Literal v)]))"
| "addProperty _ name v = Throw TypeError"

definition optional_true :: "(string \<times> expr) list" where
  "optional_true = [(''optional'', Literal (JBoolean True))]"

definition type_is :: "string \<Rightarrow> string \<times> expr" where
  "type_is k = (''type'', Literal (JString k))"

subsection \<open>The predefined table\<close>

definition predefined :: "string \<Rightarrow> string option" where
  "predefined name =
     (if name = ''IDate'' then Some ''date''
      else if name = ''IEmail'' then Some ''email''
      else if name = ''IForbidden'' then Some ''forbidden''
      else if name = ''IUrl'' then Some ''url''
      else if name = ''IUUID'' then Some ''uuid''
      else None)"

text \<open>
  \<^verbatim>\<open>predefined\<close> is a plain object literal, so \<^verbatim>\<open>predefined[name]\<close> also finds what every
  object inherits from \<^verbatim>\<open>Object.prototype\<close>: a function or an object. A name that is
  \<^verbatim>\<open>undefined\<close> reads the key \<^verbatim>\<open>"undefined"\<close>, which is not there.
\<close>

definition object_prototype_keys :: "string list" where
  "object_prototype_keys =
     [''constructor'', ''hasOwnProperty'', ''isPrototypeOf'', ''propertyIsEnumerable'',
      ''toLocaleString'', ''toString'', ''valueOf'', ''__proto__'', ''__defineGetter__'',
      ''__defineSetter__'', ''__lookupGetter__'', ''__lookupSetter__'']"

definition predefined_get :: "string option \<Rightarrow> jsval" where
  "predefined_get name =
     (case name of
        None \<Rightarrow> JUndefined
      | Some n \<Rightarrow>
          (case predefined n of
             Some k \<Rightarrow> JString k
           | None \<Rightarrow> if n \<in> set object_prototype_keys then JOther else JUndefined))"

fun truthy :: "jsval \<Rightarrow> bool" where
  "truthy (JString s) = (s \<noteq> [])"
| "truthy (JNumber s) = True"
| "truthy (JBoolean b) = b"
| "truthy JUndefined = False"
| "truthy JOther = True"

subsection \<open>Primitives and enums\<close>

text \<open>\<^verbatim>\<open>type.value\<close>: \<^verbatim>\<open>undefined\<close> when the type has no such property.\<close>

definition value_of :: "tsType \<Rightarrow> jsval" where
  "value_of t = (case type_value t of None \<Rightarrow> JUndefined | Some v \<Rightarrow> v)"

definition parsePrimitive :: "typeChecker \<Rightarrow> tyref \<Rightarrow> nat \<Rightarrow> bool \<Rightarrow> expr" where
  "parsePrimitive tc ty depth optional =
     (let t = tc ty;
          props = (if optional then optional_true else [])
      in if has_flag (flags t) TypeFlags_Literal then
           (if type_value t = None \<and> intrinsicName t \<noteq> None then
              ObjectLiteral (props @ [type_is ''enum'',
                (''values'', ArrayLiteral [Literal (JBoolean (intrinsicName t = Some ''true''))])])
            else
              ObjectLiteral (props @ [type_is ''enum'',
                (''values'', ArrayLiteral [Literal (value_of t)])]))
         else ObjectLiteral (props @ [type_is (typeToString t)]))"

definition parseEnum :: "typeChecker \<Rightarrow> tyref \<Rightarrow> nat \<Rightarrow> bool \<Rightarrow> expr" where
  "parseEnum tc ty depth optional =
     (let values = map (\<lambda>enum_property. Literal (value_of (tc enum_property))) (types (tc ty));
          props = (if optional then optional_true else [])
      in ObjectLiteral (props @ [type_is ''enum'', (''values'', ArrayLiteral values)]))"

subsection \<open>Arrays\<close>

text \<open>
  In the functions below \<open>rec\<close> is the recursive call of \<^verbatim>\<open>parseType\<close>. \<^verbatim>\<open>parseArray\<close>
  passes neither \<^verbatim>\<open>additional\<close> nor \<^verbatim>\<open>optional\<close> on. \<^verbatim>\<open>type.typeArguments[0]\<close> of an empty
  array is \<^verbatim>\<open>undefined\<close>, whose \<^verbatim>\<open>flags\<close> \<^verbatim>\<open>parseType\<close> cannot read.
\<close>

definition parseArray :: "parser \<Rightarrow> typeChecker \<Rightarrow> tyref \<Rightarrow> nat \<Rightarrow> history \<Rightarrow> bool \<Rightarrow> parsed" where
  "parseArray rec tc ty depth history optional =
     (let props = (if optional then optional_true else []) in
      case typeArguments (tc ty) of
        Some args \<Rightarrow>
          (case args of
             [] \<Rightarrow> Throw TypeError
           | item # _ \<Rightarrow>
               bind (rec item depth history False False) (\<lambda>(items, history').
                 Return (ObjectLiteral (props @ [type_is ''array'', (''items'', items)]), history')))
      | None \<Rightarrow> Return (ObjectLiteral (props @ [type_is ''array'']), history))"

subsection \<open>Unions\<close>

definition is_boolean_literal :: "typeChecker \<Rightarrow> tyref \<Rightarrow> bool" where
  "is_boolean_literal tc p = has_flag (flags (tc p)) TypeFlags_BooleanLiteral"

text \<open>
  The \<^verbatim>\<open>filter\<close> callback of \<^verbatim>\<open>parseUnion\<close> with its two variables: it returns the members
  kept and the final \<^verbatim>\<open>unionOptional\<close>, which starts \<open>False\<close> and is only ever set.
\<close>

fun filter_union :: "typeChecker \<Rightarrow> bool \<Rightarrow> tyref list \<Rightarrow> tyref list \<times> bool" where
  "filter_union tc firstBoolean [] = ([], False)"
| "filter_union tc firstBoolean (p # ps) =
     (if is_boolean_literal tc p then
        (if firstBoolean then
           (let (kept, unionOptional) = filter_union tc False ps in (p # kept, unionOptional))
         else filter_union tc firstBoolean ps)
      else if typeToString (tc p) \<noteq> ''undefined'' then
        (let (kept, unionOptional) = filter_union tc firstBoolean ps in (p # kept, unionOptional))
      else
        (let (kept, unionOptional) = filter_union tc firstBoolean ps in (kept, True)))"

definition union_value :: "typeChecker \<Rightarrow> tyref \<Rightarrow> expr" where
  "union_value tc p =
     (if is_boolean_literal tc p then
        (if typeToString (tc p) = ''false'' then Literal (JBoolean False)
         else Literal (JBoolean True))
      else Literal (value_of (tc p)))"

definition union_member :: "parser \<Rightarrow> typeChecker \<Rightarrow> nat \<Rightarrow> bool \<Rightarrow> tyref \<Rightarrow> history \<Rightarrow> parsed" where
  "union_member rec tc depth additional p history =
     (if is_boolean_literal tc p then Return (ObjectLiteral [type_is ''boolean''], history)
      else rec p depth history additional False)"

text \<open>\<^verbatim>\<open>mapped_types.map(type => addProperty(type, 'optional', true))\<close>.\<close>

fun add_optional_all :: "expr list \<Rightarrow> expr list result" where
  "add_optional_all [] = Return []"
| "add_optional_all (e # es) =
     bind (addProperty e ''optional'' (JBoolean True)) (\<lambda>e'.
       bind (add_optional_all es) (\<lambda>es'. Return (e' # es')))"

definition parseUnion :: "parser \<Rightarrow> typeChecker \<Rightarrow> tyref \<Rightarrow> nat \<Rightarrow> history \<Rightarrow> bool \<Rightarrow> bool \<Rightarrow> parsed" where
  "parseUnion rec tc ty depth history additional optional =
     (let (tys, unionOptional) = filter_union tc True (types (tc ty)) in
      if length tys = 1 then
        (let union_property = hd tys in
         if is_boolean_literal tc union_property then
           (if optional \<or> unionOptional then
              Return (ObjectLiteral ([type_is ''boolean''] @ optional_true), history)
            else Return (ObjectLiteral [type_is ''boolean''], history))
         else rec union_property depth history additional (unionOptional \<or> optional))
      else
        (let literals =
               (tys \<noteq> [] \<and> list_all (\<lambda>p. has_flag (flags (tc p)) TypeFlags_Literal) tys)
         in if literals then
              (let values = map (union_value tc) tys;
                   props = (if optional \<or> unionOptional then optional_true else [])
               in Return (ObjectLiteral (props @ [type_is ''enum'',
                    (''values'', ArrayLiteral values)]), history))
            else
              bind (map_result (union_member rec tc depth additional) tys history)
                (\<lambda>(mapped_types, history').
                   if optional \<or> unionOptional then
                     bind (add_optional_all mapped_types) (\<lambda>mapped_types'.
                       Return (ArrayLiteral mapped_types', history'))
                   else Return (ArrayLiteral mapped_types, history'))))"

subsection \<open>Intersections\<close>

text \<open>
  The tags of a type: those of \<^verbatim>\<open>type.symbol\<close>, then those of \<^verbatim>\<open>type.aliasSymbol\<close>, each when
  the symbol is there.
\<close>

definition type_docs :: "tsType \<Rightarrow> jsDocTagInfo list" where
  "type_docs t =
     (case symbol t of None \<Rightarrow> [] | Some s \<Rightarrow> symbol_jsDocTags s)
       @ (case aliasSymbol t of None \<Rightarrow> [] | Some s \<Rightarrow> symbol_jsDocTags s)"

text \<open>
  The three nested \<^verbatim>\<open>forEach\<close> loops of \<^verbatim>\<open>parseIntersection\<close>, innermost first, over the two
  arrays \<^verbatim>\<open>unique\<close> and \<^verbatim>\<open>combined_properties\<close>.
\<close>

type_synonym combining = "string list \<times> (string \<times> expr) list"

fun combine_props :: "(string \<times> expr) list \<Rightarrow> combining \<Rightarrow> combining" where
  "combine_props [] st = st"
| "combine_props ((name, e) # ps) (unique, combined_properties) =
     (if name \<in> set unique then combine_props ps (unique, combined_properties)
      else combine_props ps (unique @ [name], combined_properties @ [(name, e)]))"

fun combine_member :: "(string \<times> expr) list \<Rightarrow> combining \<Rightarrow> combining result" where
  "combine_member [] st = Return st"
| "combine_member ((name, initializer) # ps) st =
     (if name = ''props'' then
        (case initializer of
           ObjectLiteral props \<Rightarrow> combine_member ps (combine_props props st)
         | _ \<Rightarrow> Throw TypeError)
      else combine_member ps st)"

fun combine_members :: "expr list \<Rightarrow> combining \<Rightarrow> combining result" where
  "combine_members [] st = Return st"
| "combine_members (ObjectLiteral ps # members) st =
     bind (combine_member ps st) (combine_members members)"
| "combine_members (_ # members) st = Throw TypeError"

definition intersection_member :: "parser \<Rightarrow> nat \<Rightarrow> bool \<Rightarrow> tyref \<Rightarrow> history \<Rightarrow> parsed" where
  "intersection_member rec depth additional p history = rec p depth history additional False"

definition parseIntersection :: "parser \<Rightarrow> typeChecker \<Rightarrow> tyref \<Rightarrow> nat \<Rightarrow> history \<Rightarrow> bool \<Rightarrow> parsed" where
  "parseIntersection rec tc ty depth history additional =
     bind (map_result (intersection_member rec depth additional) (types (tc ty)) history)
       (\<lambda>(members, history').
          bind (combine_members (rev members) ([], [])) (\<lambda>(unique, combined_properties).
            (let properties_assignments =
                   (if depth > 1 then
                      [type_is ''object'', (''props'', ObjectLiteral combined_properties)]
                    else combined_properties);
                 docs = type_docs (tc ty);
                 properties_assignments =
                   (if additional \<and> docs \<noteq> [] then properties_assignments @ parseJSDoc docs
                    else properties_assignments)
             in Return (ObjectLiteral properties_assignments, history'))))"

subsection \<open>Interfaces\<close>

text \<open>
  The \<^verbatim>\<open>filter\<close> of \<^verbatim>\<open>parseInterface\<close>: a property with a non-empty \<^verbatim>\<open>declarations\<close> array
  or with a \<^verbatim>\<open>type\<close>.
\<close>

definition eligible :: "property \<Rightarrow> bool" where
  "eligible p =
     ((case prop_declarations p of None \<Rightarrow> False | Some ds \<Rightarrow> ds \<noteq> []) \<or> prop_type p \<noteq> None)"

text \<open>
  What the \<^verbatim>\<open>map\<close> callback of \<^verbatim>\<open>parseInterface\<close> does once \<^verbatim>\<open>parseType\<close> has returned
  \<open>parsed\<close>: the optional key, the tags of the property, and \<^verbatim>\<open>history.pop()\<close>.
\<close>

definition finish_property ::
    "bool \<Rightarrow> property \<Rightarrow> bool \<Rightarrow> expr \<times> history \<Rightarrow> ((string \<times> expr) \<times> history) result" where
  "finish_property additional p optional r =
     (case r of (parsed, history) \<Rightarrow>
        bind (if optional \<and> has_properties parsed
              then addProperty parsed ''optional'' (JBoolean True) else Return parsed)
          (\<lambda>parsed.
             bind (if additional \<and> prop_jsDocTags p \<noteq> [] \<and> has_properties parsed
                   then addProperties parsed (parseJSDoc (prop_jsDocTags p)) else Return parsed)
               (\<lambda>parsed. Return ((prop_name p, parsed), butlast history))))"

text \<open>
  The callback itself. With a \<^verbatim>\<open>declarations\<close> array the first declaration says whether the
  property is optional (an empty array gives \<^verbatim>\<open>undefined\<close>, whose \<^verbatim>\<open>questionToken\<close> cannot
  be read); without one \<^verbatim>\<open>optional\<close> stays \<^verbatim>\<open>undefined\<close> and the type is \<^verbatim>\<open>property.type\<close>.
\<close>

definition parse_property ::
    "parser \<Rightarrow> nat \<Rightarrow> bool \<Rightarrow> property \<Rightarrow> history \<Rightarrow> ((string \<times> expr) \<times> history) result" where
  "parse_property rec depth additional p history =
     (case prop_declarations p of
        Some ds \<Rightarrow>
          (case ds of
             [] \<Rightarrow> Throw TypeError
           | d # _ \<Rightarrow>
               (let optional = questionToken d in
                bind (rec (prop_typeAtLocation p) depth history additional optional)
                  (finish_property additional p optional)))
      | None \<Rightarrow>
          (case prop_type p of
             None \<Rightarrow> Throw TypeError
           | Some pty \<Rightarrow>
               bind (rec pty depth history additional False)
                 (finish_property additional p False)))"

definition parseInterface :: "parser \<Rightarrow> typeChecker \<Rightarrow> tyref \<Rightarrow> nat \<Rightarrow> history \<Rightarrow> bool \<Rightarrow> bool \<Rightarrow> parsed" where
  "parseInterface rec tc ty depth history additional optional =
     (let properties = filter eligible (propertiesOfType (tc ty)) in
      bind (map_result (parse_property rec depth additional) properties history)
        (\<lambda>(properties_assignments, history').
           if properties_assignments = [] then Return (ObjectLiteral [], butlast history')
           else
             (let neasted_properties_assignments =
                    (if depth > 1 then
                       [type_is ''object'', (''props'', ObjectLiteral properties_assignments)]
                     else properties_assignments);
                  docs = type_docs (tc ty);
                  neasted_properties_assignments =
                    (if additional \<and> docs \<noteq> []
                     then neasted_properties_assignments @ parseJSDoc docs
                     else neasted_properties_assignments);
                  neasted_properties_assignments =
                    (if optional then neasted_properties_assignments @ optional_true
                     else neasted_properties_assignments)
              in Return (ObjectLiteral neasted_properties_assignments, butlast history'))))"

subsection \<open>The dispatch\<close>

definition symbol_name_of :: "tsType \<Rightarrow> string option" where
  "symbol_name_of t = map_option symbol_name (symbol t)"

text \<open>
  One call of \<^verbatim>\<open>parseType\<close>, its recursive calls going to \<open>rec\<close>. Every \<^verbatim>\<open>++depth\<close> is
  on a path of its own, so each callee receives \<open>depth + 1\<close>. The history array is never
  \<^verbatim>\<open>undefined\<close> here: \<^verbatim>\<open>visitNode\<close> creates it and every call passes it on.
\<close>

definition parseType_body :: "parser \<Rightarrow> typeChecker \<Rightarrow> tyref \<Rightarrow> nat \<Rightarrow> history \<Rightarrow> bool \<Rightarrow> bool \<Rightarrow> parsed" where
  "parseType_body rec tc ty depth history additional optional =
     (let t = tc ty; f = flags t in
      if has_flag f TypeFlags_StringLike \<or> has_flag f TypeFlags_NumberLike
           \<or> has_flag f TypeFlags_BooleanLike \<or> f = TypeFlags_Any then
        Return (parsePrimitive tc ty (depth + 1) optional, history)
      else if f = TypeFlags_Null \<or> f = TypeFlags_Undefined \<or> f = TypeFlags_Never then
        Return (ObjectLiteral [type_is ''forbidden''], history)
      else if f = TypeFlags_Object then
        (let name = symbol_name_of t in
         if truthy (predefined_get name) then
           Return (ObjectLiteral [(''type'', Literal (predefined_get name))], history)
         else if isArrayType t then parseArray rec tc ty (depth + 1) history optional
         else if numberIndexInfo t \<or> stringIndexInfo t then
           Return (ObjectLiteral [type_is ''object''], history)
         else if name \<in> set history then Return (ObjectLiteral [type_is ''any''], history)
         else
           (let history =
                  (if name \<noteq> Some ''__type'' \<and> name \<noteq> Some ''Array'' then history @ [name]
                   else history)
            in parseInterface rec tc ty (depth + 1) history additional optional))
      else if f = TypeFlags_Union then
        parseUnion rec tc ty (depth + 1) history additional optional
      else if f = TypeFlags_Intersection then
        parseIntersection rec tc ty (depth + 1) history additional
      else if has_flag f TypeFlags_EnumLike then
        Return (parseEnum tc ty (depth + 1) optional, history)
      else Throw UnknownType)"

text \<open>
  \<^verbatim>\<open>parseType\<close>: the first argument bounds the nesting of its calls (see \<open>OutOfFuel\<close>).
\<close>

primrec parseType :: "nat \<Rightarrow> typeChecker \<Rightarrow> parser" where
  "parseType 0 tc = (\<lambda>ty depth history additional optional. OutOfFuel)"
| "parseType (Suc n) tc = parseType_body (parseType n tc) tc"

text \<open>
  \<^verbatim>\<open>visitNode\<close> on a call of \<^verbatim>\<open>schema\<close> with a type argument: \<open>additional\<close> is false when
  the first argument of the call has the intrinsic name \<^verbatim>\<open>"false"\<close>. The node that replaces
  the call is the first component of the result.
\<close>

definition visitNode :: "nat \<Rightarrow> typeChecker \<Rightarrow> tyref \<Rightarrow> bool \<Rightarrow> parsed" where
  "visitNode n tc ty additional = parseType n tc ty 0 [] additional False"

section \<open>The simplified variant (\<^verbatim>\<open>src/transformer.ts\<close>)\<close>

text \<open>
  The functions of \<^verbatim>\<open>src/transformer.ts\<close> have the names of the full variant; here they carry
  the prefix \<open>simple_\<close>. This variant has no history, depth or flags to pass on, so its
  recursive call \<open>rec\<close> takes the type alone.
\<close>

type_synonym simple_parser = "tyref \<Rightarrow> expr result"

fun map_throw :: "('a \<Rightarrow> 'b result) \<Rightarrow> 'a list \<Rightarrow> 'b list result" where
  "map_throw f [] = Return []"
| "map_throw f (x # xs) = bind (f x) (\<lambda>y. bind (map_throw f xs) (\<lambda>ys. Return (y # ys)))"

definition simple_parsePrimitive :: "typeChecker \<Rightarrow> tyref \<Rightarrow> expr" where
  "simple_parsePrimitive tc ty = ObjectLiteral [type_is (typeToString (tc ty))]"

definition simple_parseEnum :: "typeChecker \<Rightarrow> tyref \<Rightarrow> expr" where
  "simple_parseEnum tc ty =
     (let values = map (\<lambda>enum_property. Literal (value_of (tc enum_property))) (types (tc ty))
      in ObjectLiteral [type_is ''enum'', (''values'', ArrayLiteral values)])"

definition simple_parseArray :: "typeChecker \<Rightarrow> tyref \<Rightarrow> expr" where
  "simple_parseArray tc ty = ObjectLiteral [type_is ''array'']"

definition simple_parseUnion :: "simple_parser \<Rightarrow> typeChecker \<Rightarrow> tyref \<Rightarrow> expr result" where
  "simple_parseUnion rec tc ty =
     bind (map_throw
             (\<lambda>union_property.
                if is_boolean_literal tc union_property
                then Return (ObjectLiteral [type_is ''boolean''])
                else rec union_property)
             (filter (\<lambda>union_property. typeToString (tc union_property) \<noteq> ''undefined'')
                (types (tc ty))))
       (\<lambda>tys. Return (ArrayLiteral tys))"

text \<open>\<^verbatim>\<open>types.forEach(type => type.properties.forEach(property => ...push(property)))\<close>.\<close>

fun simple_combine :: "expr list \<Rightarrow> (string \<times> expr) list result" where
  "simple_combine [] = Return []"
| "simple_combine (ObjectLiteral ps # members) =
     bind (simple_combine members) (\<lambda>combined_properties. Return (ps @ combined_properties))"
| "simple_combine (_ # members) = Throw TypeError"

definition simple_parseIntersection :: "simple_parser \<Rightarrow> typeChecker \<Rightarrow> tyref \<Rightarrow> expr result" where
  "simple_parseIntersection rec tc ty =
     bind (map_throw rec (types (tc ty))) (\<lambda>tys.
       bind (simple_combine tys) (\<lambda>combined_properties.
         Return (ObjectLiteral combined_properties)))"

text \<open>\<^verbatim>\<open>/^\d+$/.test(s)\<close>.\<close>

definition digits_pattern :: "string \<Rightarrow> bool" where
  "digits_pattern s = (s \<noteq> [] \<and> list_all is_digit s)"

text \<open>
  The value a tag text becomes in this variant; \<^verbatim>\<open>parseInt\<close> of a string of decimal digits
  is the number the digits denote.
\<close>

definition simple_coerce :: "string \<Rightarrow> jsval" where
  "simple_coerce text0 =
     (let v = JString text0;
          v = (if text0 = ''true'' then JBoolean True else v);
          v = (if text0 = ''false'' then JBoolean False else v);
          v = (if digits_pattern text0 then JNumber text0 else v)
      in v)"

text \<open>The \<^verbatim>\<open>docs.forEach\<close> of \<^verbatim>\<open>parseInterface\<close>, on the properties of \<^verbatim>\<open>parsed\<close>.\<close>

fun simple_add_docs :: "jsDocTagInfo list \<Rightarrow> (string \<times> expr) list \<Rightarrow> (string \<times> expr) list" where
  "simple_add_docs [] ps = ps"
| "simple_add_docs (doc # docs) ps =
     (if has_text doc
      then simple_add_docs docs (ps @ [(tag_name doc, Literal (simple_coerce (the (tag_text doc))))])
      else simple_add_docs docs ps)"

definition simple_parse_property :: "simple_parser \<Rightarrow> property \<Rightarrow> (string \<times> expr) result" where
  "simple_parse_property rec p =
     bind (rec (prop_typeAtLocation p)) (\<lambda>parsed.
       (let declaration = hd (the (prop_declarations p));
            parsed =
              (case parsed of
                 ObjectLiteral ps \<Rightarrow>
                   if questionToken declaration then ObjectLiteral (ps @ optional_true)
                   else parsed
               | _ \<Rightarrow> parsed);
            docs = prop_jsDocTags p;
            parsed =
              (case parsed of
                 ObjectLiteral ps \<Rightarrow>
                   if docs \<noteq> [] then ObjectLiteral (simple_add_docs docs ps) else parsed
               | _ \<Rightarrow> parsed)
        in Return (prop_name p, parsed)))"

text \<open>
  The \<^verbatim>\<open>filter\<close> reads \<^verbatim>\<open>property.declarations!.length\<close> of every property before any is
  parsed, and that raises a TypeError for a property without \<^verbatim>\<open>declarations\<close>. The properties
  kept have a first declaration.
\<close>

definition simple_parseInterface :: "simple_parser \<Rightarrow> typeChecker \<Rightarrow> tyref \<Rightarrow> expr result" where
  "simple_parseInterface rec tc ty =
     (if list_ex (\<lambda>p. prop_declarations p = None) (propertiesOfType (tc ty)) then Throw TypeError
      else
        (let properties = filter (\<lambda>p. the (prop_declarations p) \<noteq> []) (propertiesOfType (tc ty))
         in bind (map_throw (simple_parse_property rec) properties) (\<lambda>properties_assignments.
              Return (ObjectLiteral properties_assignments))))"

definition simple_parseType_body :: "simple_parser \<Rightarrow> typeChecker \<Rightarrow> tyref \<Rightarrow> expr result" where
  "simple_parseType_body rec tc ty =
     (let t = tc ty; f = flags t in
      if has_flag f TypeFlags_StringLike \<or> has_flag f TypeFlags_NumberLike
           \<or> has_flag f TypeFlags_BooleanLike \<or> f = TypeFlags_Any then
        Return (simple_parsePrimitive tc ty)
      else if f = TypeFlags_Null \<or> f = TypeFlags_Undefined then Return (ObjectLiteral [])
      else if f = TypeFlags_Object \<and> objectFlags t = ObjectFlags_Interface then
        simple_parseInterface rec tc ty
      else if f = TypeFlags_Object \<and> objectFlags t = ObjectFlags_Reference then
        Return (simple_parseArray tc ty)
      else if f = TypeFlags_Union then simple_parseUnion rec tc ty
      else if f = TypeFlags_Intersection then simple_parseIntersection rec tc ty
      else if has_flag f TypeFlags_EnumLike then Return (simple_parseEnum tc ty)
      else Return (ObjectLiteral []))"

primrec simple_parseType :: "nat \<Rightarrow> typeChecker \<Rightarrow> simple_parser" where
  "simple_parseType 0 tc = (\<lambda>ty. OutOfFuel)"
| "simple_parseType (Suc n) tc = simple_parseType_body (simple_parseType n tc) tc"

section \<open>The words of the specification, and example types\<close>

text \<open>
  A signed decimal or integer, as the specification words the pattern of a numeric tag text:
  an optional sign, then digits, or digits, a point and maybe more digits, or a point and
  digits.
\<close>

definition signed_decimal :: "string \<Rightarrow> bool" where
  "signed_decimal s =
     (\<exists>sign ds fs. (sign = [] \<or> sign = ''+'' \<or> sign = ''-'')
        \<and> list_all is_digit ds \<and> list_all is_digit fs
        \<and> ((ds \<noteq> [] \<and> (s = sign @ ds \<or> s = sign @ ds @ ''.'' @ fs))
             \<or> (fs \<noteq> [] \<and> s = sign @ ''.'' @ fs)))"

definition unsigned_decimal :: "string \<Rightarrow> bool" where
  "unsigned_decimal s =
     (\<exists>ds fs. list_all is_digit ds \<and> list_all is_digit fs
        \<and> ((ds \<noteq> [] \<and> (s = ds \<or> s = ds @ ''.'' @ fs)) \<or> (fs \<noteq> [] \<and> s = ''.'' @ fs)))"

text \<open>
  An object type that reaches the cycle guard: its flags are exactly \<^verbatim>\<open>Object\<close>, the
  predefined table has nothing truthy under its name, it is not an array type and it has no
  index signature.
\<close>

definition plain_object :: "tsType \<Rightarrow> bool" where
  "plain_object t =
     (flags t = TypeFlags_Object \<and> \<not> truthy (predefined_get (symbol_name_of t))
      \<and> \<not> isArrayType t \<and> \<not> numberIndexInfo t \<and> \<not> stringIndexInfo t)"

text \<open>A type with nothing in it, from which the examples are made.\<close>

definition blank_type :: tsType where
  "blank_type =
     \<lparr>flags = 0, objectFlags = 0, symbol = None, aliasSymbol = None, type_value = None,
      intrinsicName = None, types = [], typeArguments = None, isArrayType = False,
      numberIndexInfo = False, stringIndexInfo = False, typeToString = [],
      propertiesOfType = []\<rparr>"

text \<open>The type \<^verbatim>\<open>symbol\<close>, which no rule of the dispatch covers.\<close>

definition symbol_type :: tsType where
  "symbol_type = blank_type\<lparr>flags := TypeFlags_ESSymbol, typeToString := ''symbol''\<rparr>"

text \<open>
  \<^verbatim>\<open>interface Node { value: string; next?: Node }\<close> under strict null checks: the type
  of \<^verbatim>\<open>next\<close> is the union \<^verbatim>\<open>Node | undefined\<close>. Reference 0 is \<^verbatim>\<open>Node\<close>, 1 is
  \<^verbatim>\<open>string\<close>, 2 is the union and 3 is \<^verbatim>\<open>undefined\<close>.
\<close>

definition string_type :: tsType where
  "string_type = blank_type\<lparr>flags := TypeFlags_String, typeToString := ''string''\<rparr>"

definition undefined_type :: tsType where
  "undefined_type =
     blank_type\<lparr>flags := TypeFlags_Undefined, intrinsicName := Some ''undefined'',
       typeToString := ''undefined''\<rparr>"

definition declared :: "string \<Rightarrow> bool \<Rightarrow> tyref \<Rightarrow> property" where
  "declared name question ty =
     \<lparr>prop_name = name, prop_declarations = Some [Declaration question], prop_type = None,
      prop_typeAtLocation = ty, prop_jsDocTags = []\<rparr>"

definition interface_type :: "string \<Rightarrow> property list \<Rightarrow> tsType" where
  "interface_type name props =
     blank_type\<lparr>flags := TypeFlags_Object, objectFlags := ObjectFlags_Interface,
       symbol := Some \<lparr>symbol_name = name, symbol_jsDocTags = []\<rparr>,
       typeToString := name, propertiesOfType := props\<rparr>"

definition node_types :: typeChecker where
  "node_types r =
     (if r = 0 then
        interface_type ''Node'' [declared ''value'' False 1, declared ''next'' True 2]
      else if r = 1 then string_type
      else if r = 2 then
        blank_type\<lparr>flags := TypeFlags_Union, types := [3, 0],
          typeToString := ''Node | undefined''\<rparr>
      else undefined_type)"

text \<open>
  \<^verbatim>\<open>interface M { p: string; q: N }\<close> and \<^verbatim>\<open>interface N { r: M }\<close>: reference 0 is
  \<^verbatim>\<open>M\<close>, 1 is \<^verbatim>\<open>N\<close>, every other reference is \<^verbatim>\<open>string\<close>.
\<close>

definition cycle_types :: typeChecker where
  "cycle_types r =
     (if r = 0 then interface_type ''M'' [declared ''p'' False 2, declared ''q'' False 1]
      else if r = 1 then interface_type ''N'' [declared ''r'' False 0]
      else string_type)"

text \<open>
  A cycle through a type without a name of its own: the symbol of an object literal type is
  called \<^verbatim>\<open>__type\<close>, and its only property \<^verbatim>\<open>next\<close> has that type again.
\<close>

definition anonymous_types :: typeChecker where
  "anonymous_types r = interface_type ''__type'' [declared ''next'' True 0]"

text \<open>A type named \<^verbatim>\<open>IDate\<close> that is also an array, has an index signature and a property.\<close>

definition date_type :: tsType where
  "date_type =
     (interface_type ''IDate'' [declared ''getTime'' False 0])
       \<lparr>isArrayType := True, stringIndexInfo := True, typeArguments := Some [0]\<rparr>"



text \<open>
  \<^verbatim>\<open>interface Person { name: string; nick?: string }\<close> without strict null checks, and
  the array \<^verbatim>\<open>Person[]\<close>: reference 0 is \<^verbatim>\<open>Person\<close>, 1 is \<^verbatim>\<open>string\<close>, every other
  reference is the array.
\<close>

definition array_type :: "tyref \<Rightarrow> tsType" where
  "array_type item =
     blank_type\<lparr>flags := TypeFlags_Object, objectFlags := ObjectFlags_Reference,
       symbol := Some \<lparr>symbol_name = ''Array'', symbol_jsDocTags = []\<rparr>,
       typeArguments := Some [item], isArrayType := True, numberIndexInfo := True,
       typeToString := ''Array''\<rparr>"

definition person_types :: typeChecker where
  "person_types r =
     (if r = 0 then
        interface_type ''Person'' [declared ''name'' False 1, declared ''nick'' True 1]
      else if r = 1 then string_type
      else array_type 0)"

text \<open>
  The merge of an intersection in the words of the specification: each member contributes
  the entries of its \<^verbatim>\<open>props\<close> keys (a member without such a key contributes nothing), and
  the members are merged in declared order, a later member overriding an earlier one.
\<close>

fun props_entries :: "expr \<Rightarrow> (string \<times> expr) list" where
  "props_entries (ObjectLiteral ps) =
     concat (map (\<lambda>(name, initializer).
        if name = ''props'' then (case initializer of ObjectLiteral es \<Rightarrow> es | _ \<Rightarrow> []) else []) ps)"
| "props_entries _ = []"

definition merged_props :: "expr list \<Rightarrow> (string \<rightharpoonup> expr)" where
  "merged_props members =
     foldl (\<lambda>m member. m ++ map_of (props_entries member)) Map.empty members"

text \<open>
  A member node that the merge can read: an object literal in which every \<^verbatim>\<open>props\<close> key
  has an object literal for its value.
\<close>

fun mergeable :: "expr \<Rightarrow> bool" where
  "mergeable (ObjectLiteral ps) =
     list_all (\<lambda>(name, initializer). name \<noteq> ''props'' \<or> has_properties initializer) ps"
| "mergeable _ = False"

text \<open>
  \<^verbatim>\<open>First & Second\<close> with \<^verbatim>\<open>interface First { a: string; c: string }\<close> and
  \<^verbatim>\<open>interface Second { a: number }\<close>: reference 0 is the intersection, 1 is \<^verbatim>\<open>First\<close>,
  2 is \<^verbatim>\<open>Second\<close>, 3 is \<^verbatim>\<open>string\<close>, every other reference is \<^verbatim>\<open>number\<close>.
\<close>

definition number_type :: tsType where
  "number_type = blank_type\<lparr>flags := TypeFlags_Number, typeToString := ''number''\<rparr>"

definition intersection_types :: typeChecker where
  "intersection_types r =
     (if r = 0 then
        blank_type\<lparr>flags := TypeFlags_Intersection, types := [1, 2],
          typeToString := ''First & Second''\<rparr>
      else if r = 1 then interface_type ''First'' [declared ''a'' False 3, declared ''c'' False 3]
      else if r = 2 then interface_type ''Second'' [declared ''a'' False 4]
      else if r = 3 then string_type
      else number_type)"

text \<open>
  A type checker whose answers carry no doc-comment tag: those of the symbol and alias
  symbol of every type and of every property are erased, everything else is kept.
\<close>

definition without_tags :: "tsType \<Rightarrow> tsType" where
  "without_tags t =
     t\<lparr>symbol := map_option (\<lambda>s. s\<lparr>symbol_jsDocTags := []\<rparr>) (symbol t),
       aliasSymbol := map_option (\<lambda>s. s\<lparr>symbol_jsDocTags := []\<rparr>) (aliasSymbol t),
       propertiesOfType := map (\<lambda>p. p\<lparr>prop_jsDocTags := []\<rparr>) (propertiesOfType t)\<rparr>"

definition erase_tags :: "typeChecker \<Rightarrow> typeChecker" where
  "erase_tags tc = (\<lambda>r. without_tags (tc r))"

text \<open>
  An interface with tags on the type and on its property, and the array of it:
  \<^verbatim>\<open>/** @title T */ interface Tagged { /** @min 3 */ x: string }\<close>. Reference 0 is
  \<^verbatim>\<open>Tagged[]\<close>, 1 is \<^verbatim>\<open>Tagged\<close>, every other reference is \<^verbatim>\<open>string\<close>.
\<close>

definition tagged_types :: typeChecker where
  "tagged_types r =
     (if r = 0 then array_type 1
      else if r = 1 then
        (interface_type ''Tagged''
           [(declared ''x'' False 2)
              \<lparr>prop_jsDocTags := [\<lparr>tag_name = ''min'', tag_text = Some ''3''\<rparr>]\<rparr>])
          \<lparr>symbol := Some \<lparr>symbol_name = ''Tagged'',
             symbol_jsDocTags = [\<lparr>tag_name = ''title'', tag_text = Some ''T''\<rparr>]\<rparr>\<rparr>
      else string_type)"

text \<open>Two parsers that answer alike whenever \<open>additional\<close> is off.\<close>

definition agree :: "parser \<Rightarrow> parser \<Rightarrow> bool" where
  "agree rec rec' = (\<forall>ty depth history optional.
      rec ty depth history False optional = rec' ty depth history False optional)"

text \<open>
  The node that replaces the call, without the history that the full variant also returns:
  what the two variants are compared on.
\<close>

definition node_of :: "parsed \<Rightarrow> expr result" where
  "node_of r =
     (case r of OutOfFuel \<Rightarrow> OutOfFuel | Throw e \<Rightarrow> Throw e | Return (e, h) \<Rightarrow> Return e)"

text \<open>
  The type \<^verbatim>\<open>null\<close>, and \<^verbatim>\<open>enum Color { Red = "r", Green = "g" }\<close>: reference 0 is the
  enum, a union of its two members, 1 is \<^verbatim>\<open>Color.Red\<close>, every other reference is
  \<^verbatim>\<open>Color.Green\<close>.
\<close>

definition null_type :: tsType where
  "null_type =
     blank_type\<lparr>flags := TypeFlags_Null, intrinsicName := Some ''null'',
       typeToString := ''null''\<rparr>"

definition color_types :: typeChecker where
  "color_types r =
     (if r = 0 then
        blank_type\<lparr>flags := TypeFlags_EnumLiteral OR TypeFlags_Union, types := [1, 2],
          typeToString := ''Color''\<rparr>
      else if r = 1 then
        blank_type\<lparr>flags := TypeFlags_EnumLiteral OR TypeFlags_StringLiteral,
          type_value := Some (JString ''r''), typeToString := ''Color.Red''\<rparr>
      else
        blank_type\<lparr>flags := TypeFlags_EnumLiteral OR TypeFlags_StringLiteral,
          type_value := Some (JString ''g''), typeToString := ''Color.Green''\<rparr>)"

text \<open>
  A result \<open>r'\<close> is at least \<open>r\<close> when \<open>r\<close> is no answer yet or \<open>r'\<close> is the same answer; a
  parser is below another when each of its results is at most the other's.
\<close>

definition le_result :: "'a result \<Rightarrow> 'a result \<Rightarrow> bool" where
  "le_result r r' = (r = OutOfFuel \<or> r' = r)"

definition below :: "parser \<Rightarrow> parser \<Rightarrow> bool" where
  "below rec rec' = (\<forall>ty depth history additional optional.
      le_result (rec ty depth history additional optional)
        (rec' ty depth history additional optional))"




section \<open>Basic facts\<close>

lemma bind_simps [simp]:
  "bind OutOfFuel f = OutOfFuel" "bind (Throw e) f = Throw e" "bind (Return x) f = f x"
  by (simp_all add: bind_def)

text \<open>
  The equation of \<open>parseType\<close> for a positive bound is applied by hand, through the lemmas
  of the dispatch below.
\<close>

declare parseType.simps(2) [simp del]

lemmas TypeFlags_defs =
  TypeFlags_Any_def TypeFlags_String_def TypeFlags_Number_def TypeFlags_Boolean_def
  TypeFlags_Enum_def TypeFlags_StringLiteral_def TypeFlags_NumberLiteral_def
  TypeFlags_BooleanLiteral_def TypeFlags_EnumLiteral_def TypeFlags_BigIntLiteral_def
  TypeFlags_ESSymbol_def TypeFlags_Undefined_def TypeFlags_Null_def TypeFlags_Never_def
  TypeFlags_Object_def TypeFlags_Union_def TypeFlags_Intersection_def TypeFlags_Literal_def
  TypeFlags_StringLike_def TypeFlags_NumberLike_def TypeFlags_BooleanLike_def
  TypeFlags_EnumLike_def ObjectFlags_Interface_def ObjectFlags_Reference_def

section \<open>The pattern of a numeric tag text\<close>

text \<open>
  The matcher \<open>number_pattern\<close>, written from the regular expression of \<^verbatim>\<open>parseJSDoc\<close>,
  accepts exactly the signed decimals and integers.
\<close>

lemma not_digit [simp]: "\<not> is_digit CHR ''.''" "\<not> is_digit CHR ''+''" "\<not> is_digit CHR ''-''"
  by (simp_all add: is_digit_def)

lemma takeWhile_digits_dot:
  "list_all is_digit ds \<Longrightarrow> takeWhile is_digit (ds @ CHR ''.'' # fs) = ds"
  by (induction ds) auto

lemma dropWhile_digits_dot:
  "list_all is_digit ds \<Longrightarrow> dropWhile is_digit (ds @ CHR ''.'' # fs) = CHR ''.'' # fs"
  by (induction ds) auto

lemma takeWhile_all: "list_all is_digit ds \<Longrightarrow> takeWhile is_digit ds = ds"
  by (induction ds) auto
lemma dropWhile_all: "list_all is_digit ds \<Longrightarrow> dropWhile is_digit ds = []"
  by (induction ds) auto

lemma number_body_iff: "number_body s = unsigned_decimal s"
proof
  assume b: "number_body s"
  let ?ds = "takeWhile is_digit s" and ?r = "dropWhile is_digit s"
  have s: "s = ?ds @ ?r" by simp
  have d: "list_all is_digit ?ds" by (simp add: list_all_iff) (meson set_takeWhileD)
  show "unsigned_decimal s"
  proof (cases "?ds = []")
    case False
    show ?thesis
    proof (cases ?r)
      case Nil
      with s have "s = ?ds" by simp
      with False d show ?thesis unfolding unsigned_decimal_def
        by (intro exI[of _ ?ds] exI[of _ "[]"]) simp
    next
      case (Cons c r')
      with b False have c: "c = CHR ''.''" and r': "list_all is_digit r'"
        by (simp_all add: number_body_def Let_def)
      from s Cons c have "s = ?ds @ ''.'' @ r'" by simp
      with False d r' show ?thesis unfolding unsigned_decimal_def
        by (intro exI[of _ ?ds] exI[of _ r']) simp
    qed
  next
    case True
    with b obtain r' where "s = CHR ''.'' # r'" "r' \<noteq> []" "list_all is_digit r'"
      by (auto simp: number_body_def Let_def split: list.splits)
    then show ?thesis unfolding unsigned_decimal_def
      by (intro exI[of _ "[]"] exI[of _ r']) simp
  qed
next
  assume "unsigned_decimal s"
  then obtain ds fs where d: "list_all is_digit ds" and f: "list_all is_digit fs"
    and c: "(ds \<noteq> [] \<and> (s = ds \<or> s = ds @ ''.'' @ fs)) \<or> (fs \<noteq> [] \<and> s = ''.'' @ fs)"
    unfolding unsigned_decimal_def by blast
  from c show "number_body s"
  proof (elim disjE conjE)
    assume "ds \<noteq> []" "s = ds"
    with d show ?thesis by (simp add: number_body_def takeWhile_all dropWhile_all)
  next
    assume "ds \<noteq> []" "s = ds @ ''.'' @ fs"
    with d f show ?thesis
      by (simp add: number_body_def takeWhile_digits_dot dropWhile_digits_dot)
  next
    assume "fs \<noteq> []" "s = ''.'' @ fs"
    with f show ?thesis by (simp add: number_body_def)
  qed
qed

lemma unsigned_no_sign: "unsigned_decimal (c # r) \<Longrightarrow> c \<noteq> CHR ''+'' \<and> c \<noteq> CHR ''-''"
  unfolding unsigned_decimal_def
  by (auto simp: Cons_eq_append_conv)

lemma unsigned_not_empty: "\<not> unsigned_decimal []"
  unfolding unsigned_decimal_def by auto

lemma signed_decimal_iff:
  "signed_decimal s = (unsigned_decimal s \<or> (\<exists>r. (s = CHR ''+'' # r \<or> s = CHR ''-'' # r) \<and> unsigned_decimal r))"
proof
  assume "signed_decimal s"
  then obtain sign ds fs where sg: "sign = [] \<or> sign = ''+'' \<or> sign = ''-''"
    and d: "list_all is_digit ds" and f: "list_all is_digit fs"
    and c: "(ds \<noteq> [] \<and> (s = sign @ ds \<or> s = sign @ ds @ ''.'' @ fs))
             \<or> (fs \<noteq> [] \<and> s = sign @ ''.'' @ fs)"
    unfolding signed_decimal_def by blast
  obtain r where r: "s = sign @ r" and u: "unsigned_decimal r"
  proof -
    from c d f have "\<exists>r. s = sign @ r \<and> unsigned_decimal r"
      unfolding unsigned_decimal_def by blast
    then show ?thesis using that by blast
  qed
  from sg r u show "unsigned_decimal s \<or> (\<exists>r. (s = CHR ''+'' # r \<or> s = CHR ''-'' # r) \<and> unsigned_decimal r)"
    by auto
next
  assume a: "unsigned_decimal s \<or> (\<exists>r. (s = CHR ''+'' # r \<or> s = CHR ''-'' # r) \<and> unsigned_decimal r)"
  have lift: "unsigned_decimal r \<Longrightarrow> sign = [] \<or> sign = ''+'' \<or> sign = ''-'' \<Longrightarrow> signed_decimal (sign @ r)"
    for r sign
    unfolding unsigned_decimal_def signed_decimal_def by blast
  from a show "signed_decimal s"
  proof (elim disjE exE conjE)
    assume "unsigned_decimal s"
    from lift[OF this, of "[]"] show ?thesis by simp
  next
    fix r assume "s = CHR ''+'' # r" "unsigned_decimal r"
    with lift[of r "''+''"] show ?thesis by simp
  next
    fix r assume "s = CHR ''-'' # r" "unsigned_decimal r"
    with lift[of r "''-''"] show ?thesis by simp
  qed
qed

lemma number_pattern_iff: "number_pattern s = signed_decimal s"
  unfolding signed_decimal_iff number_pattern_def number_body_iff
  by (cases s) (auto dest: unsigned_no_sign simp: unsigned_not_empty)

section \<open>Doc-comment values\<close>

text \<open>
  C9, as stated, fails in the simplified variant: its pattern is \<^verbatim>\<open>/^\d+$/\<close>, so the signed
  decimal \<^verbatim>\<open>-5\<close> stays a string there.
\<close>

theorem simple_coerce_keeps_signed:
  "signed_decimal ''-5'' \<and> simple_coerce ''-5'' = JString ''-5''"
proof -
  have "signed_decimal ''-5''"
    by (simp add: number_pattern_iff [symmetric] number_pattern_def number_body_def is_digit_def)
  then show ?thesis
    by (simp add: simple_coerce_def digits_pattern_def is_digit_def)
qed

text \<open>
  C9, amended. In both variants the value of a doc-comment tag is computed by a total rule
  that cannot fail: the text \<^verbatim>\<open>true\<close> becomes the boolean true, \<^verbatim>\<open>false\<close> the boolean
  false, a numeric text becomes the number it denotes, and every other text stays the string
  it is. In the full variant the numeric texts are the signed decimals and integers; in the
  simplified variant they are the non-empty strings of decimal digits only.
\<close>

theorem coerce_rule:
  "coerce ''true'' = JBoolean True \<and> coerce ''false'' = JBoolean False
   \<and> (signed_decimal t \<longrightarrow> coerce t = JNumber t)
   \<and> (t \<noteq> ''true'' \<and> t \<noteq> ''false'' \<and> \<not> signed_decimal t \<longrightarrow> coerce t = JString t)
   \<and> simple_coerce ''true'' = JBoolean True \<and> simple_coerce ''false'' = JBoolean False
   \<and> (t \<noteq> [] \<and> list_all is_digit t \<longrightarrow> simple_coerce t = JNumber t)
   \<and> (t \<noteq> ''true'' \<and> t \<noteq> ''false'' \<and> \<not> (t \<noteq> [] \<and> list_all is_digit t)
        \<longrightarrow> simple_coerce t = JString t)"
proof -
  have t: "\<not> number_pattern ''true''" and f: "\<not> number_pattern ''false''"
    by (simp_all add: number_pattern_def number_body_def is_digit_def)
  have n: "number_pattern t \<Longrightarrow> t \<noteq> ''true'' \<and> t \<noteq> ''false''"
    using t f by auto
  have full: "coerce ''true'' = JBoolean True \<and> coerce ''false'' = JBoolean False
   \<and> (signed_decimal t \<longrightarrow> coerce t = JNumber t)
   \<and> (t \<noteq> ''true'' \<and> t \<noteq> ''false'' \<and> \<not> signed_decimal t \<longrightarrow> coerce t = JString t)"
    using t f n by (auto simp: coerce_def Let_def number_pattern_iff [symmetric])
  have dt: "\<not> digits_pattern ''true''" and df: "\<not> digits_pattern ''false''"
    by (simp_all add: digits_pattern_def is_digit_def)
  have simple: "simple_coerce ''true'' = JBoolean True \<and> simple_coerce ''false'' = JBoolean False
   \<and> (t \<noteq> [] \<and> list_all is_digit t \<longrightarrow> simple_coerce t = JNumber t)
   \<and> (t \<noteq> ''true'' \<and> t \<noteq> ''false'' \<and> \<not> (t \<noteq> [] \<and> list_all is_digit t)
        \<longrightarrow> simple_coerce t = JString t)"
    using dt df by (auto simp: simple_coerce_def Let_def digits_pattern_def)
  from full simple show ?thesis by simp
qed

theorem coerce_rule_witness:
  "signed_decimal ''-1.5'' \<and> coerce ''-1.5'' = JNumber ''-1.5''
   \<and> \<not> signed_decimal ''1e5'' \<and> coerce ''1e5'' = JString ''1e5''
   \<and> simple_coerce ''42'' = JNumber ''42'' \<and> simple_coerce ''1e5'' = JString ''1e5''"
proof -
  have a: "signed_decimal ''-1.5''"
    by (simp add: number_pattern_iff [symmetric] number_pattern_def number_body_def is_digit_def)
  have b: "\<not> signed_decimal ''1e5''"
    by (simp add: number_pattern_iff [symmetric] number_pattern_def number_body_def is_digit_def)
  have c: "list_all is_digit ''42''" "\<not> list_all is_digit ''1e5''"
    by (simp_all add: is_digit_def)
  show ?thesis
    using a b c coerce_rule [of "''-1.5''"] coerce_rule [of "''1e5''"] coerce_rule [of "''42''"]
    by simp
qed

section \<open>The dispatch of the full variant\<close>

lemma object_not_primitive:
  "\<not> has_flag TypeFlags_Object TypeFlags_StringLike"
  "\<not> has_flag TypeFlags_Object TypeFlags_NumberLike"
  "\<not> has_flag TypeFlags_Object TypeFlags_BooleanLike"
  "TypeFlags_Object \<noteq> TypeFlags_Any"
  "TypeFlags_Object \<noteq> TypeFlags_Null"
  "TypeFlags_Object \<noteq> TypeFlags_Undefined"
  "TypeFlags_Object \<noteq> TypeFlags_Never"
  by (simp_all add: has_flag_def TypeFlags_defs)

lemma object_not_later:
  "TypeFlags_Object \<noteq> TypeFlags_Union" "TypeFlags_Object \<noteq> TypeFlags_Intersection"
  "\<not> has_flag TypeFlags_Object TypeFlags_EnumLike"
  by (simp_all add: has_flag_def TypeFlags_defs)

lemma primitive_like_flags:
  "has_flag TypeFlags_String TypeFlags_StringLike"
  "\<not> has_flag TypeFlags_String TypeFlags_Literal"
  by (simp_all add: has_flag_def TypeFlags_defs)

lemma number_flags:
  "has_flag TypeFlags_Number TypeFlags_NumberLike"
  "\<not> has_flag TypeFlags_Number TypeFlags_Literal"
  by (simp_all add: has_flag_def TypeFlags_defs)

lemma parseType_primitive:
  assumes "has_flag (flags (tc ty)) TypeFlags_StringLike
           \<or> has_flag (flags (tc ty)) TypeFlags_NumberLike
           \<or> has_flag (flags (tc ty)) TypeFlags_BooleanLike \<or> flags (tc ty) = TypeFlags_Any"
  shows "parseType (Suc n) tc ty depth history additional optional
           = Return (parsePrimitive tc ty (depth + 1) optional, history)"
  using assms by (simp add: parseType.simps parseType_body_def Let_def)

lemma parseType_guarded:
  assumes "plain_object (tc ty)" and "symbol_name_of (tc ty) \<in> set history"
  shows "parseType (Suc n) tc ty depth history additional optional
           = Return (ObjectLiteral [type_is ''any''], history)"
  using assms
  by (simp add: parseType.simps parseType_body_def Let_def plain_object_def object_not_primitive)

lemma parseType_interface:
  assumes "plain_object (tc ty)" and "symbol_name_of (tc ty) \<notin> set history"
  shows "parseType (Suc n) tc ty depth history additional optional
           = parseInterface (parseType n tc) tc ty (depth + 1)
               (if symbol_name_of (tc ty) \<noteq> Some ''__type''
                   \<and> symbol_name_of (tc ty) \<noteq> Some ''Array''
                then history @ [symbol_name_of (tc ty)] else history) additional optional"
  using assms
  by (simp add: parseType.simps parseType_body_def Let_def plain_object_def object_not_primitive)

text \<open>Reading the example types.\<close>

lemma interface_plain:
  "predefined name = None \<Longrightarrow> name \<notin> set object_prototype_keys
     \<Longrightarrow> plain_object (interface_type name props)"
  by (simp add: plain_object_def interface_type_def blank_type_def symbol_name_of_def
      predefined_get_def)

lemma interface_fields:
  "symbol_name_of (interface_type name props) = Some name"
  "propertiesOfType (interface_type name props) = props"
  "type_docs (interface_type name props) = []"
  by (simp_all add: interface_type_def blank_type_def symbol_name_of_def type_docs_def)

lemma declared_fields:
  "eligible (declared name q ty)"
  "prop_declarations (declared name q ty) = Some [Declaration q]"
  "prop_typeAtLocation (declared name q ty) = ty"
  "prop_name (declared name q ty) = name"
  "prop_jsDocTags (declared name q ty) = []"
  by (simp_all add: declared_def eligible_def)

text \<open>
  C3, as stated, fails in the simplified variant: the type \<^verbatim>\<open>symbol\<close> matches none of the
  dispatch rules, and \<^verbatim>\<open>parseType\<close> of \<^verbatim>\<open>src/transformer.ts\<close> returns the empty object
  literal for it.
\<close>

theorem simple_unknown_type_silent:
  "\<not> has_flag (flags symbol_type) TypeFlags_StringLike
   \<and> \<not> has_flag (flags symbol_type) TypeFlags_NumberLike
   \<and> \<not> has_flag (flags symbol_type) TypeFlags_BooleanLike
   \<and> flags symbol_type \<noteq> TypeFlags_Any
   \<and> flags symbol_type \<noteq> TypeFlags_Null
   \<and> flags symbol_type \<noteq> TypeFlags_Undefined
   \<and> flags symbol_type \<noteq> TypeFlags_Never
   \<and> flags symbol_type \<noteq> TypeFlags_Object
   \<and> flags symbol_type \<noteq> TypeFlags_Union
   \<and> flags symbol_type \<noteq> TypeFlags_Intersection
   \<and> \<not> has_flag (flags symbol_type) TypeFlags_EnumLike
   \<and> simple_parseType 1 (\<lambda>r. symbol_type) 0 = Return (ObjectLiteral [])"
  by (simp add: simple_parseType_body_def symbol_type_def blank_type_def has_flag_def
      TypeFlags_defs)

text \<open>
  C3, amended. For a type that no rule of the dispatch covers (not primitive-like, not null,
  undefined or never, not an object, a union or an intersection, not enum-like) the full
  variant throws the error \<^verbatim>\<open>Unknown type\<close> and returns no node, whatever the depth, the
  history and the flags of the call; the simplified variant returns the empty object literal.
\<close>

theorem unknown_type_throws:
  assumes "\<not> has_flag (flags (tc ty)) TypeFlags_StringLike"
    and "\<not> has_flag (flags (tc ty)) TypeFlags_NumberLike"
    and "\<not> has_flag (flags (tc ty)) TypeFlags_BooleanLike"
    and "flags (tc ty) \<noteq> TypeFlags_Any"
    and "flags (tc ty) \<noteq> TypeFlags_Null"
    and "flags (tc ty) \<noteq> TypeFlags_Undefined"
    and "flags (tc ty) \<noteq> TypeFlags_Never"
    and "flags (tc ty) \<noteq> TypeFlags_Object"
    and "flags (tc ty) \<noteq> TypeFlags_Union"
    and "flags (tc ty) \<noteq> TypeFlags_Intersection"
    and "\<not> has_flag (flags (tc ty)) TypeFlags_EnumLike"
  shows "parseType (Suc n) tc ty depth history additional optional = Throw UnknownType
         \<and> simple_parseType (Suc m) tc ty = Return (ObjectLiteral [])"
  using assms
  by (simp add: parseType.simps parseType_body_def simple_parseType_body_def Let_def)

theorem unknown_type_throws_witness:
  "parseType 1 (\<lambda>r. symbol_type) 0 0 [] True False = Throw UnknownType
   \<and> simple_parseType 1 (\<lambda>r. symbol_type) 0 = Return (ObjectLiteral [])"
  using unknown_type_throws [of "\<lambda>r. symbol_type" 0 0 0 "[]" True False 0]
  by (simp add: symbol_type_def blank_type_def has_flag_def TypeFlags_defs)

text \<open>
  C8. An object type whose symbol has one of the five marker names yields the fixed node of
  that name, whatever else the type is: the theorem asks nothing of \<open>isArrayType\<close>, of the
  index signatures, of the history or of the properties, so the marker rule comes before
  the array, index-signature, cycle-guard and interface rules.
\<close>

theorem marker_names:
  assumes "flags (tc ty) = TypeFlags_Object"
    and "symbol (tc ty) = Some s"
    and "(symbol_name s, k) \<in> set [(''IDate'', ''date''), (''IEmail'', ''email''),
           (''IForbidden'', ''forbidden''), (''IUrl'', ''url''), (''IUUID'', ''uuid'')]"
  shows "parseType (Suc n) tc ty depth history additional optional
           = Return (ObjectLiteral [(''type'', Literal (JString k))], history)"
proof -
  from assms(3) have "predefined (symbol_name s) = Some k \<and> k \<noteq> []"
    by (auto simp: predefined_def)
  with assms(1,2) show ?thesis
    by (simp add: parseType.simps parseType_body_def Let_def object_not_primitive
        symbol_name_of_def predefined_get_def)
qed

theorem marker_names_witness:
  "parseType 1 (\<lambda>r. date_type) 0 3 [Some ''IDate''] True True
     = Return (ObjectLiteral [(''type'', Literal (JString ''date''))], [Some ''IDate''])"
  using marker_names [of "\<lambda>r. date_type" 0 _ "''date''" 0 3 "[Some ''IDate'']" True True]
  by (simp add: date_type_def interface_type_def blank_type_def)

section \<open>The bound on the nesting of calls\<close>

lemma le_result_refl [simp]: "le_result r r"
  by (simp add: le_result_def)

lemma le_result_bind:
  "le_result m m' \<Longrightarrow> (\<And>x. le_result (f x) (f' x)) \<Longrightarrow> le_result (bind m f) (bind m' f')"
  by (cases m) (auto simp: le_result_def)

lemma le_result_map:
  "(\<And>x s. le_result (f x s) (g x s)) \<Longrightarrow> le_result (map_result f xs s) (map_result g xs s)"
proof (induction xs arbitrary: s)
  case Nil
  show ?case by simp
next
  case (Cons x xs)
  show ?case
    by (simp, intro le_result_bind Cons.prems) (auto intro!: le_result_bind Cons.IH Cons.prems)
qed

lemma below_array:
  "below rec rec' \<Longrightarrow>
     le_result (parseArray rec tc ty depth history optional)
       (parseArray rec' tc ty depth history optional)"
  by (auto simp: parseArray_def below_def split: option.splits list.splits intro!: le_result_bind)

lemma below_union:
  assumes "below rec rec'"
  shows "le_result (parseUnion rec tc ty depth history additional optional)
           (parseUnion rec' tc ty depth history additional optional)"
proof -
  have "le_result (union_member rec tc depth additional p h) (union_member rec' tc depth additional p h)"
    for p h using assms by (simp add: union_member_def below_def)
  then have "le_result (map_result (union_member rec tc depth additional) ps h)
      (map_result (union_member rec' tc depth additional) ps h)" for ps h
    by (rule le_result_map)
  with assms show ?thesis
    by (auto simp: parseUnion_def Let_def below_def case_prod_beta intro!: le_result_bind)
qed

lemma below_intersection:
  assumes "below rec rec'"
  shows "le_result (parseIntersection rec tc ty depth history additional)
           (parseIntersection rec' tc ty depth history additional)"
proof -
  have "le_result (intersection_member rec depth additional p h)
          (intersection_member rec' depth additional p h)"
    for p h using assms by (simp add: intersection_member_def below_def)
  then have "le_result (map_result (intersection_member rec depth additional) ps h)
      (map_result (intersection_member rec' depth additional) ps h)" for ps h
    by (rule le_result_map)
  then show ?thesis
    by (auto simp: parseIntersection_def intro!: le_result_bind)
qed

lemma below_interface:
  assumes "below rec rec'"
  shows "le_result (parseInterface rec tc ty depth history additional optional)
           (parseInterface rec' tc ty depth history additional optional)"
proof -
  have "le_result (parse_property rec depth additional p h)
          (parse_property rec' depth additional p h)"
    for p h using assms
    by (auto simp: parse_property_def below_def Let_def split: option.splits list.splits
        intro!: le_result_bind)
  then have "le_result (map_result (parse_property rec depth additional) ps h)
      (map_result (parse_property rec' depth additional) ps h)" for ps h
    by (rule le_result_map)
  then show ?thesis
    by (auto simp: parseInterface_def Let_def intro!: le_result_bind)
qed

lemma below_body:
  assumes "below rec rec'"
  shows "below (parseType_body rec tc) (parseType_body rec' tc)"
  using below_array [OF assms] below_union [OF assms] below_intersection [OF assms]
    below_interface [OF assms]
  by (simp add: below_def parseType_body_def Let_def)

lemma below_Suc: "below (parseType n tc) (parseType (Suc n) tc)"
proof (induction n)
  case 0
  show ?case by (simp add: below_def le_result_def)
next
  case (Suc n)
  then show ?case by (simp add: parseType.simps below_body)
qed

lemma le_result_trans: "le_result a b \<Longrightarrow> le_result b c \<Longrightarrow> le_result a c"
  by (auto simp: le_result_def)

lemma below_trans: "below f g \<Longrightarrow> below g h \<Longrightarrow> below f h"
  unfolding below_def by (blast intro: le_result_trans)

lemma below_add: "below (parseType n tc) (parseType (n + k) tc)"
proof (induction k)
  case 0
  show ?case by (simp add: below_def)
next
  case (Suc k)
  from Suc below_Suc [of "n + k" tc] show ?case
    by (simp add: below_trans)
qed

lemma belowD:
  "below f g \<Longrightarrow> f ty depth history additional optional \<noteq> OutOfFuel
     \<Longrightarrow> g ty depth history additional optional = f ty depth history additional optional"
  unfolding below_def le_result_def by blast

text \<open>
  Once a bound on the nesting of calls is enough for \<^verbatim>\<open>parseType\<close> to return or to throw,
  every greater bound gives the same result: the result of a call of the program does not
  depend on the bound.
\<close>

lemma more_fuel_same_result:
  assumes "parseType n tc ty depth history additional optional \<noteq> OutOfFuel"
  shows "parseType (n + k) tc ty depth history additional optional
           = parseType n tc ty depth history additional optional"
  using below_add assms by (rule belowD)

section \<open>The cycle guard\<close>

lemma node_types_at:
  "node_types 0 = interface_type ''Node'' [declared ''value'' False 1, declared ''next'' True 2]"
  "node_types (Suc 0) = string_type"
  "node_types 2 = blank_type\<lparr>flags := TypeFlags_Union, types := [3, 0],
          typeToString := ''Node | undefined''\<rparr>"
  "node_types 3 = undefined_type"
  by (simp_all add: node_types_def)

lemmas example_defs = interface_type_def blank_type_def string_type_def undefined_type_def
  declared_def

lemma node_string:
  "parseType n node_types (Suc 0) d h a b = OutOfFuel \<or>
   parseType n node_types (Suc 0) d h a b
     = Return (ObjectLiteral ((if b then optional_true else []) @ [type_is ''string'']), h)"
  by (cases n) (simp_all add: parseType.simps parseType_body_def parsePrimitive_def node_types_at
      example_defs Let_def has_flag_def TypeFlags_defs)

text \<open>
  C1. The decomposition of \<^verbatim>\<open>interface Node { value: string; next?: Node }\<close> does not
  terminate: after the property \<^verbatim>\<open>value\<close> the callback pops \<^verbatim>\<open>Node\<close> off the history, so
  the guard does not find the name when \<^verbatim>\<open>next\<close> brings the type back, and \<^verbatim>\<open>parseType\<close>
  enters it again, with the same empty history, for ever. In the model no bound on the
  nesting of the calls is enough for the call of \<^verbatim>\<open>visitNode\<close> to return.
\<close>

theorem node_never_returns: "\<forall>n. visitNode n node_types 0 True = OutOfFuel"
proof
  fix n
  have "parseType n node_types 0 d [] a b = OutOfFuel
          \<and> parseType n node_types 2 d [] a b = OutOfFuel" for d a b
  proof (induction n arbitrary: d a b)
    case 0
    show ?case by simp
  next
    case (Suc n)
    have u: "parseType (Suc n) node_types 2 d [] a b = OutOfFuel"
      using Suc.IH [of "Suc d" a True]
      by (simp add: parseType.simps parseType_body_def parseUnion_def node_types_at example_defs
         Let_def has_flag_def TypeFlags_defs is_boolean_literal_def)
    have i: "parseType (Suc n) node_types 0 d [] a b = OutOfFuel"
      using Suc.IH [of "Suc d" a True] node_string [of n "Suc d" "[Some ''Node'']" a False]
      by (auto simp add: parseType.simps parseType_body_def Let_def node_types_at example_defs
          has_flag_def TypeFlags_defs symbol_name_of_def predefined_get_def predefined_def
          object_prototype_keys_def parseInterface_def eligible_def parse_property_def
          finish_property_def optional_true_def type_is_def)
    from u i show ?case by simp
  qed
  then show "visitNode n node_types 0 True = OutOfFuel"
    by (simp add: visitNode_def)
qed

text \<open>
  The guard never pushes the name \<^verbatim>\<open>__type\<close>, so a cycle through an object literal type is
  not stopped either.
\<close>

lemma anonymous_loops: "parseType n anonymous_types 0 d [] a b = OutOfFuel"
proof (induction n arbitrary: d a b)
  case 0
  show ?case by simp
next
  case (Suc n)
  have "plain_object (anonymous_types 0)" "symbol_name_of (anonymous_types 0) = Some ''__type''"
    "propertiesOfType (anonymous_types 0) = [declared ''next'' True 0]"
    by (simp_all add: anonymous_types_def interface_plain interface_fields predefined_def
      object_prototype_keys_def)
  then show ?case using Suc.IH [of "Suc d" a True]
    by (simp add: parseType_interface parseInterface_def declared_fields parse_property_def)
qed

lemma cycle_types_at:
  "cycle_types 0 = interface_type ''M'' [declared ''p'' False 2, declared ''q'' False 1]"
  "cycle_types (Suc 0) = interface_type ''N'' [declared ''r'' False 0]"
  "cycle_types 2 = string_type"
  by (simp_all add: cycle_types_def)

lemma cycle_string:
  "parseType (Suc n) cycle_types 2 d h a False = Return (ObjectLiteral [type_is ''string''], h)"
  by (simp add: parseType_primitive cycle_types_at string_type_def blank_type_def
      primitive_like_flags parsePrimitive_def)

lemma cycle_facts:
  "plain_object (cycle_types 0)" "plain_object (cycle_types (Suc 0))"
  "symbol_name_of (cycle_types 0) = Some ''M''" "symbol_name_of (cycle_types (Suc 0)) = Some ''N''"
  "propertiesOfType (cycle_types 0) = [declared ''p'' False 2, declared ''q'' False 1]"
  "propertiesOfType (cycle_types (Suc 0)) = [declared ''r'' False 0]"
  "type_docs (cycle_types 0) = []" "type_docs (cycle_types (Suc 0)) = []"
  by (simp_all add: cycle_types_at interface_plain interface_fields predefined_def
      object_prototype_keys_def)

lemma cycle_inner_M:
  "parseType (Suc (Suc n)) cycle_types 0 (Suc d) [Some ''N''] a False =
     Return (ObjectLiteral [type_is ''object'', (''props'', ObjectLiteral
        [(''p'', ObjectLiteral [type_is ''string'']), (''q'', ObjectLiteral [type_is ''any''])])], [])"
  by (simp add: parseType_interface parseType_guarded cycle_facts parseInterface_def
      declared_fields parse_property_def finish_property_def cycle_string Let_def)

lemma cycle_N:
  "parseType (Suc (Suc (Suc n))) cycle_types (Suc 0) (Suc d) [] a False =
     Return (ObjectLiteral [type_is ''object'', (''props'', ObjectLiteral
       [(''r'', ObjectLiteral [type_is ''object'', (''props'', ObjectLiteral
        [(''p'', ObjectLiteral [type_is ''string'']), (''q'', ObjectLiteral [type_is ''any''])])])])], [])"
  by (subst parseType_interface)
    (simp_all add: cycle_facts parseInterface_def
      declared_fields parse_property_def finish_property_def cycle_inner_M Let_def)

text \<open>
  C2. The history is not a stack of the types being decomposed. For
  \<^verbatim>\<open>interface M { p: string; q: N }\<close> and \<^verbatim>\<open>interface N { r: M }\<close> the name \<^verbatim>\<open>M\<close> is
  popped after the property \<^verbatim>\<open>p\<close>, while \<^verbatim>\<open>M\<close> is still being decomposed; so under \<^verbatim>\<open>q\<close>
  the property \<^verbatim>\<open>r\<close> of \<^verbatim>\<open>N\<close> does not meet the guard and \<^verbatim>\<open>M\<close> is decomposed a second
  time, inside itself. Only there, with \<^verbatim>\<open>N\<close> still in the history, the guard answers.
\<close>

theorem cycle_reentered:
  "visitNode 4 cycle_types 0 True =
     Return (ObjectLiteral
       [(''p'', ObjectLiteral [(''type'', Literal (JString ''string''))]),
        (''q'', ObjectLiteral
           [(''type'', Literal (JString ''object'')),
            (''props'', ObjectLiteral
               [(''r'', ObjectLiteral
                   [(''type'', Literal (JString ''object'')),
                    (''props'', ObjectLiteral
                       [(''p'', ObjectLiteral [(''type'', Literal (JString ''string''))]),
                        (''q'', ObjectLiteral [(''type'', Literal (JString ''any''))])])])])])], [])"
proof -
  have "parseType (Suc (Suc (Suc (Suc 0)))) cycle_types 0 0 [] True False =
     Return (ObjectLiteral
       [(''p'', ObjectLiteral [type_is ''string'']),
        (''q'', ObjectLiteral [type_is ''object'', (''props'', ObjectLiteral
       [(''r'', ObjectLiteral [type_is ''object'', (''props'', ObjectLiteral
        [(''p'', ObjectLiteral [type_is ''string'']), (''q'', ObjectLiteral [type_is ''any''])])])])])], [])"
    by (subst parseType_interface)
      (simp_all add: cycle_facts parseInterface_def
      declared_fields parse_property_def finish_property_def cycle_string cycle_N Let_def)
  then show ?thesis by (simp add: visitNode_def eval_nat_numeral type_is_def)
qed

section \<open>Unions\<close>



lemma filter_union_Cons:
  "filter_union tc fb (p # ps) =
     (if is_boolean_literal tc p then
        (if fb then (p # fst (filter_union tc False ps), snd (filter_union tc False ps))
         else filter_union tc fb ps)
      else if typeToString (tc p) \<noteq> ''undefined'' then
        (p # fst (filter_union tc fb ps), snd (filter_union tc fb ps))
      else (fst (filter_union tc fb ps), True))"
  by (simp add: case_prod_beta)




lemma filter_union_others:
  "filter (\<lambda>p. \<not> is_boolean_literal tc p) (fst (filter_union tc fb ps))
     = filter (\<lambda>p. \<not> is_boolean_literal tc p \<and> typeToString (tc p) \<noteq> ''undefined'') ps"
  by (induction ps arbitrary: fb)
    (simp_all add: filter_union_Cons del: filter_union.simps(2))















section \<open>Interfaces\<close>

lemma parseType_array:
  assumes "flags (tc ty) = TypeFlags_Object"
    and "\<not> truthy (predefined_get (symbol_name_of (tc ty)))" and "isArrayType (tc ty)"
  shows "parseType (Suc n) tc ty depth history additional optional
           = parseArray (parseType n tc) tc ty (depth + 1) history optional"
  using assms
  by (simp add: parseType.simps parseType_body_def Let_def object_not_primitive)

lemma map_result_length:
  "map_result f xs s = Return (ys, s') \<Longrightarrow> length ys = length xs"
proof (induction xs arbitrary: s ys)
  case Nil
  then show ?case by simp
next
  case (Cons x xs)
  then show ?case
    by (auto simp: bind_def split: result.splits prod.splits)
qed

lemma parseJSDoc_Nil [simp]: "parseJSDoc [] = []"
  by (simp add: parseJSDoc_def)

lemma optional_property:
  assumes "prop_declarations p = Some (d # ds)" and "questionToken d"
    and "rec (prop_typeAtLocation p) depth h additional True = Return (ObjectLiteral ps, h1)"
  shows "parse_property rec depth additional p h
           = Return ((prop_name p,
                ObjectLiteral ((if additional then parseJSDoc (prop_jsDocTags p) else [])
                   @ ps @ optional_true)), butlast h1)"
  using assms by (simp add: parse_property_def finish_property_def optional_true_def)

text \<open>
  C4. An object type that reaches the interface rule and has at least one eligible property
  is emitted flat at depth 1 (the type argument of the call: \<^verbatim>\<open>parseType\<close> at depth 0), its
  property assignments being the keys of the result, and wrapped as
  \<^verbatim>\<open>{type: "object", props: {...}}\<close> at any greater depth (an array's item type); the tags of
  the type and the optional key of the call follow in both shapes. The node of a property
  declared with a question mark whose decomposition is an object literal ends with
  \<^verbatim>\<open>optional: true\<close>.
\<close>

theorem object_flat_or_wrapped:
  assumes "plain_object (tc ty)" and "symbol_name_of (tc ty) \<notin> set history"
    and "filter eligible (propertiesOfType (tc ty)) \<noteq> []"
    and "map_result (parse_property (parseType n tc) (Suc depth) additional)
           (filter eligible (propertiesOfType (tc ty)))
           (if symbol_name_of (tc ty) \<noteq> Some ''__type''
                \<and> symbol_name_of (tc ty) \<noteq> Some ''Array''
            then history @ [symbol_name_of (tc ty)] else history)
         = Return (assignments, history')"
  shows "parseType (Suc n) tc ty depth history additional optional
           = Return (ObjectLiteral
               ((if Suc depth > 1
                 then [type_is ''object'', (''props'', ObjectLiteral assignments)]
                 else assignments)
                @ (if additional then parseJSDoc (type_docs (tc ty)) else [])
                @ (if optional then optional_true else [])), butlast history')
         \<and> (\<forall>p d ds ps h h1.
               prop_declarations p = Some (d # ds) \<and> questionToken d
               \<and> parseType n tc (prop_typeAtLocation p) (Suc depth) h additional True
                   = Return (ObjectLiteral ps, h1)
               \<longrightarrow> parse_property (parseType n tc) (Suc depth) additional p h
                   = Return ((prop_name p,
                        ObjectLiteral ((if additional then parseJSDoc (prop_jsDocTags p) else [])
                          @ ps @ optional_true)), butlast h1))"
proof (intro conjI allI impI)
  from assms(3,4) have "assignments \<noteq> []"
    using map_result_length by fastforce
  with assms show "parseType (Suc n) tc ty depth history additional optional
           = Return (ObjectLiteral
               ((if Suc depth > 1
                 then [type_is ''object'', (''props'', ObjectLiteral assignments)]
                 else assignments)
                @ (if additional then parseJSDoc (type_docs (tc ty)) else [])
                @ (if optional then optional_true else [])), butlast history')"
    by (simp add: parseType_interface parseInterface_def Let_def)
next
  fix p :: property and d ds ps h h1
  assume "prop_declarations p = Some (d # ds) \<and> questionToken d
               \<and> parseType n tc (prop_typeAtLocation p) (Suc depth) h additional True
                   = Return (ObjectLiteral ps, h1)"
  then show "parse_property (parseType n tc) (Suc depth) additional p h
                   = Return ((prop_name p,
                        ObjectLiteral ((if additional then parseJSDoc (prop_jsDocTags p) else [])
                          @ ps @ optional_true)), butlast h1)"
    by (simp add: optional_property)
qed

lemma person_types_at:
  "person_types 0 = interface_type ''Person'' [declared ''name'' False 1, declared ''nick'' True 1]"
  "person_types (Suc 0) = string_type"
  "person_types 2 = array_type 0"
  by (simp_all add: person_types_def)

lemma person_facts:
  "plain_object (person_types 0)"
  "symbol_name_of (person_types 0) = Some ''Person''"
  "propertiesOfType (person_types 0) = [declared ''name'' False 1, declared ''nick'' True 1]"
  "type_docs (person_types 0) = []"
  by (simp_all add: person_types_at interface_plain interface_fields predefined_def
      object_prototype_keys_def)

lemma person_string:
  "parseType (Suc n) person_types (Suc 0) d h a b
     = Return (ObjectLiteral ((if b then optional_true else []) @ [type_is ''string'']), h)"
  by (simp add: parseType_primitive person_types_at string_type_def blank_type_def
      primitive_like_flags parsePrimitive_def)

lemma person_properties:
  "map_result (parse_property (parseType (Suc n) person_types) d a)
     [declared ''name'' False 1, declared ''nick'' True 1] (h @ [x])
   = Return ([(''name'', ObjectLiteral [type_is ''string'']),
              (''nick'', ObjectLiteral (optional_true @ [type_is ''string''] @ optional_true))], butlast h)"
  by (simp add: parse_property_def declared_fields person_string finish_property_def
      optional_true_def)

lemma person_array_facts:
  "flags (person_types 2) = TypeFlags_Object"
  "\<not> truthy (predefined_get (symbol_name_of (person_types 2)))"
  "isArrayType (person_types 2)"
  "typeArguments (person_types 2) = Some [0]"
  by (simp_all add: person_types_at array_type_def blank_type_def symbol_name_of_def
      predefined_get_def predefined_def object_prototype_keys_def)

theorem object_flat_or_wrapped_witness:
  "parseType 2 person_types 0 0 [] True False
     = Return (ObjectLiteral
         [(''name'', ObjectLiteral [(''type'', Literal (JString ''string''))]),
          (''nick'', ObjectLiteral [(''optional'', Literal (JBoolean True)),
             (''type'', Literal (JString ''string'')),
             (''optional'', Literal (JBoolean True))])], [])
   \<and> parseType 3 person_types 2 0 [] True False
     = Return (ObjectLiteral
         [(''type'', Literal (JString ''array'')),
          (''items'', ObjectLiteral
            [(''type'', Literal (JString ''object'')),
             (''props'', ObjectLiteral
               [(''name'', ObjectLiteral [(''type'', Literal (JString ''string''))]),
                (''nick'', ObjectLiteral [(''optional'', Literal (JBoolean True)),
                   (''type'', Literal (JString ''string'')),
                   (''optional'', Literal (JBoolean True))])])])], [])"
proof -
  have flat: "parseType (Suc (Suc 0)) person_types 0 0 [] True False
     = Return (ObjectLiteral
         [(''name'', ObjectLiteral [type_is ''string'']),
          (''nick'', ObjectLiteral (optional_true @ [type_is ''string''] @ optional_true))], [])"
    using object_flat_or_wrapped [of person_types 0 "[]" "Suc 0" 0 True _ "[]" False]
      person_properties [of 0 _ True "[]"]
    by (simp add: person_facts declared_fields)
  have wrapped: "parseType (Suc (Suc 0)) person_types 0 (Suc 0) [] False False
     = Return (ObjectLiteral [type_is ''object'', (''props'', ObjectLiteral
         [(''name'', ObjectLiteral [type_is ''string'']),
          (''nick'', ObjectLiteral (optional_true @ [type_is ''string''] @ optional_true))])], [])"
    using object_flat_or_wrapped [of person_types 0 "[]" "Suc 0" "Suc 0" False _ "[]" False]
      person_properties [of 0 _ False "[]"]
    by (simp add: person_facts declared_fields)
  have array: "parseType (Suc (Suc (Suc 0))) person_types 2 0 [] True False
     = Return (ObjectLiteral [type_is ''array'', (''items'',
         ObjectLiteral [type_is ''object'', (''props'', ObjectLiteral
         [(''name'', ObjectLiteral [type_is ''string'']),
          (''nick'', ObjectLiteral (optional_true @ [type_is ''string''] @ optional_true))])])], [])"
    by (simp add: parseType_array person_array_facts parseArray_def wrapped)
  from flat array show ?thesis
    by (simp add: eval_nat_numeral optional_true_def type_is_def)
qed

section \<open>Intersections\<close>

lemma intersection_not_earlier:
  "\<not> has_flag TypeFlags_Intersection TypeFlags_StringLike"
  "\<not> has_flag TypeFlags_Intersection TypeFlags_NumberLike"
  "\<not> has_flag TypeFlags_Intersection TypeFlags_BooleanLike"
  "TypeFlags_Intersection \<noteq> TypeFlags_Any"
  "TypeFlags_Intersection \<noteq> TypeFlags_Null"
  "TypeFlags_Intersection \<noteq> TypeFlags_Undefined"
  "TypeFlags_Intersection \<noteq> TypeFlags_Never"
  "TypeFlags_Intersection \<noteq> TypeFlags_Object"
  "TypeFlags_Intersection \<noteq> TypeFlags_Union"
  by (simp_all add: has_flag_def TypeFlags_defs)

lemma parseType_intersection:
  assumes "flags (tc ty) = TypeFlags_Intersection"
  shows "parseType (Suc n) tc ty depth history additional optional
           = parseIntersection (parseType n tc) tc ty (depth + 1) history additional"
  using assms by (simp add: parseType.simps parseType_body_def Let_def intersection_not_earlier)

lemma map_add_known:
  "k \<in> dom m' \<Longrightarrow> m(k \<mapsto> v) ++ m' = m ++ m'"
  by (auto simp: map_add_def fun_eq_iff split: option.splits)

lemma map_add_new:
  "k \<notin> dom m' \<Longrightarrow> m ++ ([k \<mapsto> v] ++ m') = m(k \<mapsto> v) ++ m'"
  by (auto simp: map_add_def fun_eq_iff split: option.splits)

lemma combine_props_inv:
  assumes "combine_props ps (u, c) = (u', c')" and "u = map fst c" and "distinct (map fst c)"
  shows "u' = map fst c' \<and> map_of c' = map_of ps ++ map_of c \<and> distinct (map fst c')"
  using assms
proof (induction ps arbitrary: u c)
  case Nil
  then show ?case by auto
next
  case (Cons x ps)
  obtain name e where x: "x = (name, e)" by (cases x)
  have hd: "map_of (x # ps) = (map_of ps)(name \<mapsto> e)" using x by simp
  show ?case
  proof (cases "name \<in> set u")
    case True
    with Cons.prems x have "combine_props ps (u, c) = (u', c')" by simp
    from Cons.IH [OF this Cons.prems(2,3)]
    have i: "u' = map fst c'" "map_of c' = map_of ps ++ map_of c" "distinct (map fst c')"
      by simp_all
    from True Cons.prems(2) have "name \<in> dom (map_of c)"
      by (simp add: dom_map_of_conv_image_fst)
    then have "(map_of ps)(name \<mapsto> e) ++ map_of c = map_of ps ++ map_of c"
      by (rule map_add_known)
    with i hd show ?thesis by (simp only:)
  next
    case False
    with Cons.prems x have r: "combine_props ps (u @ [name], c @ [(name, e)]) = (u', c')"
      by simp
    from False Cons.prems(2,3) have "u @ [name] = map fst (c @ [(name, e)])"
      and "distinct (map fst (c @ [(name, e)]))" by auto
    from Cons.IH [OF r this]
    have i: "u' = map fst c'" "map_of c' = map_of ps ++ map_of (c @ [(name, e)])"
      "distinct (map fst c')"
      by simp_all
    from False Cons.prems(2) have "name \<notin> dom (map_of c)"
      by (simp add: dom_map_of_conv_image_fst)
    then have "map_of ps ++ ([name \<mapsto> e] ++ map_of c) = (map_of ps)(name \<mapsto> e) ++ map_of c"
      by (rule map_add_new)
    moreover have "map_of (c @ [(name, e)]) = [name \<mapsto> e] ++ map_of c"
      by (simp only: map_of_append) simp
    ultimately show ?thesis using i hd by (simp only:)
  qed
qed

lemma props_entries_Cons:
  "props_entries (ObjectLiteral ((name, initializer) # ps)) =
     (if name = ''props'' then (case initializer of ObjectLiteral es \<Rightarrow> es | _ \<Rightarrow> []) else [])
       @ props_entries (ObjectLiteral ps)"
  by simp

lemma combine_member_inv:
  assumes "combine_member ps (u, c) = Return (u', c')" and "u = map fst c"
    and "distinct (map fst c)"
  shows "u' = map fst c' \<and> map_of c' = map_of (props_entries (ObjectLiteral ps)) ++ map_of c
           \<and> distinct (map fst c')"
  using assms
proof (induction ps arbitrary: u c)
  case Nil
  then show ?case by auto
next
  case (Cons x ps)
  obtain name initializer where x: "x = (name, initializer)" by (cases x)
  show ?case
  proof (cases "name = ''props''")
    case False
    with Cons.prems x have "combine_member ps (u, c) = Return (u', c')" by simp
    from Cons.IH [OF this Cons.prems(2,3)] False x show ?thesis
      by (simp del: props_entries.simps add: props_entries_Cons)
  next
    case True
    with Cons.prems x obtain es where i: "initializer = ObjectLiteral es"
      by (cases initializer) simp_all
    obtain u1 c1 where s: "combine_props es (u, c) = (u1, c1)"
      by (cases "combine_props es (u, c)")
    from combine_props_inv [OF s Cons.prems(2,3)]
    have u1: "u1 = map fst c1" and m1: "map_of c1 = map_of es ++ map_of c"
      and d1: "distinct (map fst c1)" by simp_all
    from Cons.prems x True i s have "combine_member ps (u1, c1) = Return (u', c')" by simp
    from Cons.IH [OF this u1 d1] m1 True x i show ?thesis
      by (simp del: props_entries.simps add: props_entries_Cons map_add_assoc)
  qed
qed

lemma combine_members_inv:
  assumes "combine_members ms (u, c) = Return (u', c')" and "u = map fst c"
    and "distinct (map fst c)"
  shows "u' = map fst c'
           \<and> map_of c' = foldl (\<lambda>m e. map_of (props_entries e) ++ m) (map_of c) ms
           \<and> distinct (map fst c')"
  using assms
proof (induction ms arbitrary: u c)
  case Nil
  then show ?case by auto
next
  case (Cons x ms)
  from Cons.prems(1) obtain ps where x: "x = ObjectLiteral ps"
    by (cases x) simp_all
  from Cons.prems(1) x obtain u1 c1 where s: "combine_member ps (u, c) = Return (u1, c1)"
    and r: "combine_members ms (u1, c1) = Return (u', c')"
    by (cases "combine_member ps (u, c)") auto
  from combine_member_inv [OF s Cons.prems(2,3)]
  have u1: "u1 = map fst c1"
    and m1: "map_of c1 = map_of (props_entries (ObjectLiteral ps)) ++ map_of c"
    and d1: "distinct (map fst c1)" by simp_all
  from Cons.IH [OF r u1 d1] m1 x show ?case by simp
qed

lemma merged_foldl:
  "foldl (\<lambda>m e. m ++ E e) m0 ms = m0 ++ foldr (\<lambda>e m. E e ++ m) ms Map.empty"
  by (induction ms arbitrary: m0) (simp_all add: map_add_assoc)

lemma combine_members_merged:
  assumes "combine_members (rev members) ([], []) = Return (unique, combined)"
  shows "unique = map fst combined \<and> map_of combined = merged_props members
           \<and> distinct (map fst combined)"
proof -
  from combine_members_inv [OF assms]
  have "unique = map fst combined" and "distinct (map fst combined)"
    and "map_of combined
           = foldl (\<lambda>m e. map_of (props_entries e) ++ m) Map.empty (rev members)"
    by simp_all
  moreover have "foldl (\<lambda>m e. map_of (props_entries e) ++ m) Map.empty (rev members)
          = merged_props members"
    by (simp add: merged_props_def merged_foldl foldr_conv_foldl)
  ultimately show ?thesis by simp
qed

text \<open>The merge raises no TypeError on member nodes it can read.\<close>

lemma combine_member_returns:
  "list_all (\<lambda>(name, initializer). name \<noteq> ''props'' \<or> has_properties initializer) ps
     \<Longrightarrow> \<exists>st'. combine_member ps st = Return st'"
proof (induction ps arbitrary: st)
  case Nil
  show ?case by simp
next
  case (Cons x ps)
  obtain name initializer where x: "x = (name, initializer)" by (cases x)
  show ?case
  proof (cases "name = ''props''")
    case False
    with Cons x show ?thesis by simp
  next
    case True
    with Cons.prems x obtain es where "initializer = ObjectLiteral es"
      by (cases initializer) simp_all
    with Cons x True show ?thesis by simp
  qed
qed

lemma combine_members_returns:
  "list_all mergeable ms \<Longrightarrow> \<exists>st'. combine_members ms st = Return st'"
proof (induction ms arbitrary: st)
  case Nil
  show ?case by simp
next
  case (Cons m ms)
  from Cons.prems obtain ps where m: "m = ObjectLiteral ps" by (cases m) simp_all
  with Cons.prems obtain st1 where "combine_member ps st = Return st1"
    using combine_member_returns [of ps st] by auto
  with Cons m show ?case by simp
qed

lemma simple_combine_concat: "simple_combine (map ObjectLiteral pss) = Return (concat pss)"
  by (induction pss) simp_all

lemma intersection_types_at:
  "intersection_types 0 = blank_type\<lparr>flags := TypeFlags_Intersection, types := [1, 2],
          typeToString := ''First & Second''\<rparr>"
  "intersection_types (Suc 0) = interface_type ''First'' [declared ''a'' False 3, declared ''c'' False 3]"
  "intersection_types 2 = interface_type ''Second'' [declared ''a'' False 4]"
  "intersection_types 3 = string_type"
  "intersection_types 4 = number_type"
  by (simp_all add: intersection_types_def)

lemma intersection_facts:
  "flags (intersection_types 0) = TypeFlags_Intersection"
  "types (intersection_types 0) = [1, 2]"
  "type_docs (intersection_types 0) = []"
  "plain_object (intersection_types (Suc 0))" "plain_object (intersection_types 2)"
  "symbol_name_of (intersection_types (Suc 0)) = Some ''First''"
  "symbol_name_of (intersection_types 2) = Some ''Second''"
  "propertiesOfType (intersection_types (Suc 0)) = [declared ''a'' False 3, declared ''c'' False 3]"
  "propertiesOfType (intersection_types 2) = [declared ''a'' False 4]"
  "type_docs (intersection_types (Suc 0)) = []" "type_docs (intersection_types 2) = []"
proof -
  show "type_docs (intersection_types 0) = []"
    by (simp add: intersection_types_at blank_type_def type_docs_def)
qed (simp_all add: intersection_types_at interface_plain interface_fields predefined_def
      object_prototype_keys_def blank_type_def)

lemma intersection_leaves:
  "parseType (Suc n) intersection_types 3 d h a False
     = Return (ObjectLiteral [type_is ''string''], h)"
  "parseType (Suc n) intersection_types 4 d h a False
     = Return (ObjectLiteral [type_is ''number''], h)"
  by (simp_all add: parseType_primitive intersection_types_at string_type_def number_type_def
      blank_type_def primitive_like_flags number_flags parsePrimitive_def)

lemma intersection_members:
  "parseType (Suc (Suc n)) intersection_types (Suc 0) (Suc d) [] a False
     = Return (ObjectLiteral [type_is ''object'', (''props'', ObjectLiteral
         [(''a'', ObjectLiteral [type_is ''string'']),
          (''c'', ObjectLiteral [type_is ''string''])])], [])"
  "parseType (Suc (Suc n)) intersection_types 2 (Suc d) [] a False
     = Return (ObjectLiteral [type_is ''object'', (''props'', ObjectLiteral
         [(''a'', ObjectLiteral [type_is ''number''])])], [])"
  by (simp_all add: parseType_interface intersection_facts parseInterface_def declared_fields
      parse_property_def finish_property_def intersection_leaves Let_def)

lemma simple_leaves:
  "simple_parseType (Suc n) intersection_types 3 = Return (ObjectLiteral [type_is ''string''])"
  "simple_parseType (Suc n) intersection_types 4 = Return (ObjectLiteral [type_is ''number''])"
  by (simp_all add: simple_parseType_body_def simple_parsePrimitive_def intersection_types_at
      string_type_def number_type_def blank_type_def Let_def has_flag_def TypeFlags_defs)

lemma simple_members:
  "simple_parseType (Suc (Suc n)) intersection_types (Suc 0)
     = Return (ObjectLiteral [(''a'', ObjectLiteral [type_is ''string'']),
                              (''c'', ObjectLiteral [type_is ''string''])])"
  "simple_parseType (Suc (Suc n)) intersection_types 2
     = Return (ObjectLiteral [(''a'', ObjectLiteral [type_is ''number''])])"
  by (simp_all del: simple_parseType.simps add: simple_parseType.simps(2) [of "Suc n"]
      simple_parseType_body_def simple_parseInterface_def
      simple_parse_property_def simple_leaves intersection_types_at interface_type_def
      declared_def blank_type_def Let_def has_flag_def TypeFlags_defs)

text \<open>
  C6, as stated, fails in the simplified variant: for \<^verbatim>\<open>First & Second\<close> it emits every
  property of both members in declared order, the name \<^verbatim>\<open>a\<close> twice, although no member
  node carries a \<^verbatim>\<open>props\<close> key; nothing is merged.
\<close>

theorem simple_intersection_keeps_all:
  "simple_parseType 3 intersection_types 0
     = Return (ObjectLiteral
         [(''a'', ObjectLiteral [(''type'', Literal (JString ''string''))]),
          (''c'', ObjectLiteral [(''type'', Literal (JString ''string''))]),
          (''a'', ObjectLiteral [(''type'', Literal (JString ''number''))])])
   \<and> \<not> distinct (map fst
         [(''a'', ObjectLiteral [(''type'', Literal (JString ''string''))]),
          (''c'', ObjectLiteral [(''type'', Literal (JString ''string''))]),
          (''a'', ObjectLiteral [(''type'', Literal (JString ''number''))])])"
proof -
  have "simple_parseType (Suc (Suc (Suc 0))) intersection_types 0
     = Return (ObjectLiteral
         [(''a'', ObjectLiteral [type_is ''string'']),
          (''c'', ObjectLiteral [type_is ''string'']),
          (''a'', ObjectLiteral [type_is ''number''])])"
    by (simp del: simple_parseType.simps add: simple_parseType.simps(2) [of "Suc (Suc 0)"]
      simple_parseType_body_def simple_parseIntersection_def simple_members
      intersection_types_at blank_type_def Let_def has_flag_def TypeFlags_defs)
  then show ?thesis by (simp del: simple_parseType.simps add: eval_nat_numeral type_is_def)
qed

text \<open>
  C6, amended. In the full variant, for an intersection type whose members have been
  decomposed into \<open>members\<close> and merged without a TypeError, the merged mapping \<open>combined\<close> is
  the merge of the entries of the members' \<^verbatim>\<open>props\<close> keys in which a later member overrides
  an earlier one (a member without a \<^verbatim>\<open>props\<close> key contributes nothing), each name once. It
  is emitted flat at depth 1 and wrapped as \<^verbatim>\<open>{type: "object", props: {...}}\<close> at any
  greater depth, followed by the tags of the intersection type when \<^verbatim>\<open>additional\<close> is set.
  The simplified variant merges nothing: it emits one object literal with all the properties
  of all the member nodes, in declared order.
\<close>

theorem intersection_merge:
  assumes "flags (tc ty) = TypeFlags_Intersection"
    and "map_result (intersection_member (parseType n tc) (Suc depth) additional)
           (types (tc ty)) history = Return (members, history')"
    and "combine_members (rev members) ([], []) = Return (unique, combined)"
  shows "parseType (Suc n) tc ty depth history additional optional
           = Return (ObjectLiteral
               ((if Suc depth > 1
                 then [type_is ''object'', (''props'', ObjectLiteral combined)]
                 else combined)
                @ (if additional then parseJSDoc (type_docs (tc ty)) else [])), history')
         \<and> map_of combined = merged_props members \<and> distinct (map fst combined)
         \<and> (\<forall>pss. map_throw (simple_parseType m tc) (types (tc ty)) = Return (map ObjectLiteral pss)
               \<longrightarrow> simple_parseType (Suc m) tc ty = Return (ObjectLiteral (concat pss)))"
proof -
  have "simple_parseType (Suc m) tc ty = simple_parseIntersection (simple_parseType m tc) tc ty"
    using assms(1)
    by (simp add: simple_parseType_body_def Let_def intersection_not_earlier)
  then have "\<forall>pss. map_throw (simple_parseType m tc) (types (tc ty)) = Return (map ObjectLiteral pss)
               \<longrightarrow> simple_parseType (Suc m) tc ty = Return (ObjectLiteral (concat pss))"
    by (simp add: simple_parseIntersection_def simple_combine_concat)
  with assms combine_members_merged [OF assms(3)] show ?thesis
    by (simp add: parseType_intersection parseIntersection_def Let_def)
qed

theorem intersection_merge_witness:
  "parseType 3 intersection_types 0 0 [] True False
     = Return (ObjectLiteral
         [(''a'', ObjectLiteral [(''type'', Literal (JString ''number''))]),
          (''c'', ObjectLiteral [(''type'', Literal (JString ''string''))])], [])
   \<and> simple_parseType 3 intersection_types 0
     = Return (ObjectLiteral
         [(''a'', ObjectLiteral [(''type'', Literal (JString ''string''))]),
          (''c'', ObjectLiteral [(''type'', Literal (JString ''string''))]),
          (''a'', ObjectLiteral [(''type'', Literal (JString ''number''))])])"
proof -
  let ?first = "ObjectLiteral [type_is ''object'', (''props'', ObjectLiteral
         [(''a'', ObjectLiteral [type_is ''string'']),
          (''c'', ObjectLiteral [type_is ''string''])])]"
  let ?second = "ObjectLiteral [type_is ''object'', (''props'', ObjectLiteral
         [(''a'', ObjectLiteral [type_is ''number''])])]"
  have m: "map_result (intersection_member (parseType (Suc (Suc 0)) intersection_types) (Suc 0) True)
             (types (intersection_types 0)) [] = Return ([?first, ?second], [])"
    by (simp add: intersection_facts intersection_member_def intersection_members)
  have c: "combine_members (rev [?first, ?second]) ([], [])
             = Return ([''a'', ''c''], [(''a'', ObjectLiteral [type_is ''number'']),
                                        (''c'', ObjectLiteral [type_is ''string''])])"
    by (simp add: type_is_def)
  have sm: "map_throw (simple_parseType (Suc (Suc 0)) intersection_types)
              (types (intersection_types 0))
            = Return (map ObjectLiteral
                [[(''a'', ObjectLiteral [type_is ''string'']),
                  (''c'', ObjectLiteral [type_is ''string''])],
                 [(''a'', ObjectLiteral [type_is ''number''])]])"
    by (simp del: simple_parseType.simps add: intersection_facts simple_members)
  note inst = intersection_merge [OF intersection_facts(1) m c,
      where optional = False and m = "Suc (Suc 0)"]
  from inst have full: "parseType (Suc (Suc (Suc 0))) intersection_types 0 0 [] True False
     = Return (ObjectLiteral
         [(''a'', ObjectLiteral [type_is ''number'']),
          (''c'', ObjectLiteral [type_is ''string''])], [])"
    by (simp add: intersection_facts)
  from inst have "\<forall>pss. map_throw (simple_parseType (Suc (Suc 0)) intersection_types)
        (types (intersection_types 0)) = Return (map ObjectLiteral pss)
      \<longrightarrow> simple_parseType (Suc (Suc (Suc 0))) intersection_types 0
          = Return (ObjectLiteral (concat pss))"
    by (elim conjE)
  from this [rule_format, OF sm]
  have simple: "simple_parseType (Suc (Suc (Suc 0))) intersection_types 0
     = Return (ObjectLiteral
         [(''a'', ObjectLiteral [type_is ''string'']),
          (''c'', ObjectLiteral [type_is ''string'']),
          (''a'', ObjectLiteral [type_is ''number''])])"
    by (simp del: simple_parseType.simps)
  from full simple show ?thesis
    by (simp del: simple_parseType.simps add: eval_nat_numeral type_is_def)
qed

section \<open>Arrays and doc-comment tags\<close>

lemma map_result_cong:
  "(\<And>x s. x \<in> set xs \<Longrightarrow> f x s = g x s) \<Longrightarrow> map_result f xs s = map_result g xs s"
  by (induction xs arbitrary: s) simp_all

lemma map_result_map:
  "map_result f (map k xs) s = map_result (\<lambda>x. f (k x)) xs s"
  by (induction xs arbitrary: s) simp_all

lemma erased_fields [simp]:
  "flags (erase_tags tc r) = flags (tc r)"
  "type_value (erase_tags tc r) = type_value (tc r)"
  "intrinsicName (erase_tags tc r) = intrinsicName (tc r)"
  "types (erase_tags tc r) = types (tc r)"
  "typeArguments (erase_tags tc r) = typeArguments (tc r)"
  "isArrayType (erase_tags tc r) = isArrayType (tc r)"
  "numberIndexInfo (erase_tags tc r) = numberIndexInfo (tc r)"
  "stringIndexInfo (erase_tags tc r) = stringIndexInfo (tc r)"
  "typeToString (erase_tags tc r) = typeToString (tc r)"
  "propertiesOfType (erase_tags tc r)
     = map (\<lambda>p. p\<lparr>prop_jsDocTags := []\<rparr>) (propertiesOfType (tc r))"
  by (simp_all add: erase_tags_def without_tags_def)

lemma erased_name [simp]: "symbol_name_of (erase_tags tc r) = symbol_name_of (tc r)"
  by (cases "symbol (tc r)") (simp_all add: erase_tags_def without_tags_def symbol_name_of_def)

lemma erased_value [simp]: "value_of (erase_tags tc r) = value_of (tc r)"
  by (simp add: value_of_def)

lemma erased_primitive [simp]: "parsePrimitive (erase_tags tc) = parsePrimitive tc"
  by (auto simp add: parsePrimitive_def fun_eq_iff Let_def)

lemma erased_enum [simp]: "parseEnum (erase_tags tc) = parseEnum tc"
  by (simp add: parseEnum_def fun_eq_iff Let_def)

lemma erased_boolean [simp]: "is_boolean_literal (erase_tags tc) = is_boolean_literal tc"
  by (simp add: is_boolean_literal_def fun_eq_iff)

lemma erased_filter [simp]: "filter_union (erase_tags tc) fb ps = filter_union tc fb ps"
  by (induction ps arbitrary: fb) simp_all

lemma erased_union_value [simp]: "union_value (erase_tags tc) = union_value tc"
  by (simp add: union_value_def fun_eq_iff)

lemma erased_array:
  "agree rec rec' \<Longrightarrow>
     parseArray rec' (erase_tags tc) ty depth history optional
       = parseArray rec tc ty depth history optional"
  by (simp add: parseArray_def agree_def split: option.splits list.splits)

lemma erased_union:
  assumes "agree rec rec'"
  shows "parseUnion rec' (erase_tags tc) ty depth history False optional
           = parseUnion rec tc ty depth history False optional"
proof -
  have "union_member rec' (erase_tags tc) depth False = union_member rec tc depth False"
    using assms by (simp add: union_member_def agree_def fun_eq_iff)
  with assms show ?thesis
    by (simp add: parseUnion_def agree_def Let_def case_prod_beta cong: if_cong)
qed

lemma erased_intersection:
  assumes "agree rec rec'"
  shows "parseIntersection rec' (erase_tags tc) ty depth history False
           = parseIntersection rec tc ty depth history False"
proof -
  have "intersection_member rec' depth False = intersection_member rec depth False"
    using assms by (simp add: intersection_member_def agree_def fun_eq_iff)
  then show ?thesis
    by (simp add: parseIntersection_def)
qed

lemma erased_property:
  assumes "agree rec rec'"
  shows "parse_property rec' depth False (p\<lparr>prop_jsDocTags := []\<rparr>) history
           = parse_property rec depth False p history"
proof -
  have "finish_property False (p\<lparr>prop_jsDocTags := []\<rparr>) = finish_property False p"
    by (simp add: finish_property_def fun_eq_iff)
  with assms show ?thesis
    by (simp add: parse_property_def agree_def split: option.splits list.splits)
qed

lemma erased_eligible [simp]: "eligible (p\<lparr>prop_jsDocTags := []\<rparr>) = eligible p"
  by (simp add: eligible_def)

lemma erased_interface:
  assumes "agree rec rec'"
  shows "parseInterface rec' (erase_tags tc) ty depth history False optional
           = parseInterface rec tc ty depth history False optional"
proof -
  have "map_result (parse_property rec' depth False)
          (filter eligible (propertiesOfType (erase_tags tc ty))) history
        = map_result (\<lambda>p. parse_property rec' depth False (p\<lparr>prop_jsDocTags := []\<rparr>))
          (filter eligible (propertiesOfType (tc ty))) history"
    by (simp add: filter_map comp_def map_result_map)
  also have "\<dots> = map_result (parse_property rec depth False)
          (filter eligible (propertiesOfType (tc ty))) history"
    by (rule map_result_cong) (simp add: erased_property [OF assms])
  finally show ?thesis
    by (simp add: parseInterface_def Let_def cong: if_cong)
qed

lemma erased_body:
  assumes "agree rec rec'"
  shows "parseType_body rec' (erase_tags tc) ty depth history False optional
           = parseType_body rec tc ty depth history False optional"
  using assms
  by (simp add: parseType_body_def Let_def erased_array erased_union erased_intersection
      erased_interface cong: if_cong)

lemma erased_parseType: "agree (parseType n tc) (parseType n (erase_tags tc))"
proof (induction n)
  case 0
  show ?case by (simp add: agree_def)
next
  case (Suc n)
  then show ?case
    by (simp add: agree_def parseType.simps erased_body)
qed

text \<open>
  C10. For an array type with an element type, \<^verbatim>\<open>parseType\<close> decomposes the element type
  with \<^verbatim>\<open>additional\<close> (and \<^verbatim>\<open>optional\<close>) off, whatever \<^verbatim>\<open>additional\<close> the call had. The
  node of the element type is then the one a type checker without any doc-comment tag
  gives, and so is the node of the array: nothing in the items subtree comes from a tag.
\<close>

theorem array_items_without_tags:
  assumes "flags (tc ty) = TypeFlags_Object"
    and "\<not> truthy (predefined_get (symbol_name_of (tc ty)))"
    and "isArrayType (tc ty)"
    and "typeArguments (tc ty) = Some (item # rest)"
  shows "parseType (Suc n) tc ty depth history additional optional
           = bind (parseType n tc item (Suc depth) history False False)
               (\<lambda>(items, history').
                  Return (ObjectLiteral ((if optional then optional_true else [])
                    @ [type_is ''array'', (''items'', items)]), history'))
         \<and> parseType n tc item (Suc depth) history False False
           = parseType n (erase_tags tc) item (Suc depth) history False False
         \<and> parseType (Suc n) tc ty depth history additional optional
           = parseType (Suc n) (erase_tags tc) ty depth history False optional"
proof (intro conjI)
  show "parseType (Suc n) tc ty depth history additional optional
           = bind (parseType n tc item (Suc depth) history False False)
               (\<lambda>(items, history').
                  Return (ObjectLiteral ((if optional then optional_true else [])
                    @ [type_is ''array'', (''items'', items)]), history'))"
    using assms by (simp add: parseType_array parseArray_def)
  show "parseType n tc item (Suc depth) history False False
           = parseType n (erase_tags tc) item (Suc depth) history False False"
    using erased_parseType [of n tc] by (simp add: agree_def)
  have "parseType (Suc n) (erase_tags tc) ty depth history False optional
          = parseArray (parseType n (erase_tags tc)) (erase_tags tc) ty (depth + 1) history optional"
    using assms by (simp add: parseType_array)
  also have "\<dots> = parseArray (parseType n tc) tc ty (depth + 1) history optional"
    by (rule erased_array) (rule erased_parseType)
  also have "\<dots> = parseType (Suc n) tc ty depth history additional optional"
    using assms by (simp add: parseType_array)
  finally show "parseType (Suc n) tc ty depth history additional optional
           = parseType (Suc n) (erase_tags tc) ty depth history False optional"
    by simp
qed

lemma tagged_types_at:
  "tagged_types 0 = array_type 1"
  "tagged_types (Suc 0) = (interface_type ''Tagged''
           [(declared ''x'' False 2)
              \<lparr>prop_jsDocTags := [\<lparr>tag_name = ''min'', tag_text = Some ''3''\<rparr>]\<rparr>])
          \<lparr>symbol := Some \<lparr>symbol_name = ''Tagged'',
             symbol_jsDocTags = [\<lparr>tag_name = ''title'', tag_text = Some ''T''\<rparr>]\<rparr>\<rparr>"
  "tagged_types 2 = string_type"
  by (simp_all add: tagged_types_def)

lemma tagged_facts:
  "flags (tagged_types 0) = TypeFlags_Object"
  "\<not> truthy (predefined_get (symbol_name_of (tagged_types 0)))"
  "isArrayType (tagged_types 0)"
  "typeArguments (tagged_types 0) = Some [Suc 0]"
  "plain_object (tagged_types (Suc 0))"
  "symbol_name_of (tagged_types (Suc 0)) = Some ''Tagged''"
  "propertiesOfType (tagged_types (Suc 0)) = [(declared ''x'' False 2)
              \<lparr>prop_jsDocTags := [\<lparr>tag_name = ''min'', tag_text = Some ''3''\<rparr>]\<rparr>]"
  "type_docs (tagged_types (Suc 0)) = [\<lparr>tag_name = ''title'', tag_text = Some ''T''\<rparr>]"
  by (simp_all add: tagged_types_at array_type_def interface_type_def blank_type_def
      symbol_name_of_def predefined_get_def predefined_def object_prototype_keys_def
      plain_object_def type_docs_def)

lemma tagged_string:
  "parseType (Suc n) tagged_types 2 d h a False = Return (ObjectLiteral [type_is ''string''], h)"
  by (simp add: parseType_primitive tagged_types_at string_type_def blank_type_def
      primitive_like_flags parsePrimitive_def)

lemma tagged_values:
  "parseJSDoc [\<lparr>tag_name = ''min'', tag_text = Some ''3''\<rparr>] = [(''min'', Literal (JNumber ''3''))]"
  "parseJSDoc [\<lparr>tag_name = ''title'', tag_text = Some ''T''\<rparr>] = [(''title'', Literal (JString ''T''))]"
  by (simp_all add: parseJSDoc_def has_text_def coerce_def number_pattern_def number_body_def
      is_digit_def)

theorem array_items_without_tags_witness:
  "parseType 3 tagged_types 0 0 [] True False
     = Return (ObjectLiteral
         [(''type'', Literal (JString ''array'')),
          (''items'', ObjectLiteral
            [(''type'', Literal (JString ''object'')),
             (''props'', ObjectLiteral
               [(''x'', ObjectLiteral [(''type'', Literal (JString ''string''))])])])], [])
   \<and> parseType 2 tagged_types 1 0 [] True False
     = Return (ObjectLiteral
         [(''x'', ObjectLiteral [(''min'', Literal (JNumber ''3'')),
                                 (''type'', Literal (JString ''string''))]),
          (''title'', Literal (JString ''T''))], [])"
proof -
  have item: "parseType (Suc (Suc 0)) tagged_types (Suc 0) (Suc 0) [] False False
     = Return (ObjectLiteral [type_is ''object'', (''props'', ObjectLiteral
         [(''x'', ObjectLiteral [type_is ''string''])])], [])"
    by (simp add: parseType_interface tagged_facts parseInterface_def declared_def eligible_def
        parse_property_def finish_property_def tagged_string Let_def)
  have top: "parseType (Suc (Suc 0)) tagged_types (Suc 0) 0 [] True False
     = Return (ObjectLiteral
         [(''x'', ObjectLiteral [(''min'', Literal (JNumber ''3'')), type_is ''string'']),
          (''title'', Literal (JString ''T''))], [])"
    by (simp add: parseType_interface tagged_facts parseInterface_def declared_def eligible_def
        parse_property_def finish_property_def tagged_string tagged_values Let_def)
  from array_items_without_tags
         [of tagged_types 0 "Suc 0" "[]" "Suc (Suc 0)" 0 "[]" True False]
    tagged_facts item
  have "parseType (Suc (Suc (Suc 0))) tagged_types 0 0 [] True False
     = Return (ObjectLiteral [type_is ''array'', (''items'',
         ObjectLiteral [type_is ''object'', (''props'', ObjectLiteral
         [(''x'', ObjectLiteral [type_is ''string''])])])], [])"
    by simp
  with top show ?thesis by (simp add: eval_nat_numeral type_is_def)
qed

section \<open>The two variants\<close>

text \<open>
  C7, as stated, fails: for the type \<^verbatim>\<open>null\<close> the full variant emits
  \<^verbatim>\<open>{type: "forbidden"}\<close> and the simplified variant the empty object literal.
\<close>

theorem variants_differ_on_null:
  "node_of (visitNode 1 (\<lambda>r. null_type) 0 True)
     = Return (ObjectLiteral [(''type'', Literal (JString ''forbidden''))])
   \<and> simple_parseType 1 (\<lambda>r. null_type) 0 = Return (ObjectLiteral [])
   \<and> node_of (visitNode 1 (\<lambda>r. null_type) 0 True) \<noteq> simple_parseType 1 (\<lambda>r. null_type) 0"
  by (simp add: node_of_def visitNode_def parseType.simps parseType_body_def
      simple_parseType.simps simple_parseType_body_def null_type_def blank_type_def Let_def
      has_flag_def TypeFlags_defs type_is_def)

text \<open>
  C7, amended. The two variants agree on part of the inputs only. For a primitive-like
  type that is not a literal both emit \<^verbatim>\<open>{type: <display string>}\<close>, and for an enum-like
  type that no earlier rule of the dispatch takes both emit \<^verbatim>\<open>{type: "enum", values: [...]}\<close>
  with the values of the members; this holds for every positive bound on the nesting of
  calls and for either value of \<^verbatim>\<open>additional\<close>.
\<close>

theorem variants_agree_on_primitives_and_enums:
  "((has_flag (flags (tc ty)) TypeFlags_StringLike \<or> has_flag (flags (tc ty)) TypeFlags_NumberLike
       \<or> has_flag (flags (tc ty)) TypeFlags_BooleanLike \<or> flags (tc ty) = TypeFlags_Any)
      \<and> \<not> has_flag (flags (tc ty)) TypeFlags_Literal
     \<longrightarrow> node_of (visitNode (Suc n) tc ty additional)
           = Return (ObjectLiteral [type_is (typeToString (tc ty))])
         \<and> simple_parseType (Suc m) tc ty
           = Return (ObjectLiteral [type_is (typeToString (tc ty))]))
   \<and> (\<not> has_flag (flags (tc ty)) TypeFlags_StringLike
       \<and> \<not> has_flag (flags (tc ty)) TypeFlags_NumberLike
       \<and> \<not> has_flag (flags (tc ty)) TypeFlags_BooleanLike
       \<and> flags (tc ty) \<notin> {TypeFlags_Any, TypeFlags_Null, TypeFlags_Undefined, TypeFlags_Never,
             TypeFlags_Object, TypeFlags_Union, TypeFlags_Intersection}
       \<and> has_flag (flags (tc ty)) TypeFlags_EnumLike
     \<longrightarrow> node_of (visitNode (Suc n) tc ty additional)
           = Return (ObjectLiteral [type_is ''enum'',
               (''values'', ArrayLiteral (map (\<lambda>p. Literal (value_of (tc p))) (types (tc ty))))])
         \<and> simple_parseType (Suc m) tc ty
           = Return (ObjectLiteral [type_is ''enum'',
               (''values'', ArrayLiteral (map (\<lambda>p. Literal (value_of (tc p))) (types (tc ty))))]))"
  by (auto simp add: node_of_def visitNode_def parseType.simps parseType_body_def
      simple_parseType.simps simple_parseType_body_def Let_def parsePrimitive_def
      simple_parsePrimitive_def parseEnum_def simple_parseEnum_def)

lemma color_types_at:
  "color_types 0 = blank_type\<lparr>flags := TypeFlags_EnumLiteral OR TypeFlags_Union, types := [1, 2],
          typeToString := ''Color''\<rparr>"
  "color_types (Suc 0) = blank_type\<lparr>flags := TypeFlags_EnumLiteral OR TypeFlags_StringLiteral,
          type_value := Some (JString ''r''), typeToString := ''Color.Red''\<rparr>"
  "color_types 2 = blank_type\<lparr>flags := TypeFlags_EnumLiteral OR TypeFlags_StringLiteral,
          type_value := Some (JString ''g''), typeToString := ''Color.Green''\<rparr>"
  by (simp_all add: color_types_def)

theorem variants_agree_on_primitives_and_enums_witness:
  "node_of (visitNode 1 (\<lambda>r. string_type) 0 True)
     = Return (ObjectLiteral [(''type'', Literal (JString ''string''))])
   \<and> simple_parseType 1 (\<lambda>r. string_type) 0
     = Return (ObjectLiteral [(''type'', Literal (JString ''string''))])
   \<and> node_of (visitNode 1 color_types 0 True)
     = Return (ObjectLiteral [(''type'', Literal (JString ''enum'')),
         (''values'', ArrayLiteral [Literal (JString ''r''), Literal (JString ''g'')])])
   \<and> simple_parseType 1 color_types 0
     = Return (ObjectLiteral [(''type'', Literal (JString ''enum'')),
         (''values'', ArrayLiteral [Literal (JString ''r''), Literal (JString ''g'')])])"
proof -
  have s: "has_flag (flags string_type) TypeFlags_StringLike"
    "\<not> has_flag (flags string_type) TypeFlags_Literal" "typeToString string_type = ''string''"
    by (simp_all add: string_type_def blank_type_def has_flag_def TypeFlags_defs)
  have c: "\<not> has_flag (flags (color_types 0)) TypeFlags_StringLike"
    "\<not> has_flag (flags (color_types 0)) TypeFlags_NumberLike"
    "\<not> has_flag (flags (color_types 0)) TypeFlags_BooleanLike"
    "flags (color_types 0) \<notin> {TypeFlags_Any, TypeFlags_Null, TypeFlags_Undefined,
        TypeFlags_Never, TypeFlags_Object, TypeFlags_Union, TypeFlags_Intersection}"
    "has_flag (flags (color_types 0)) TypeFlags_EnumLike"
    by (simp_all add: color_types_at blank_type_def has_flag_def TypeFlags_defs)
  have v: "types (color_types 0) = [1, 2]" "value_of (color_types (Suc 0)) = JString ''r''"
    "value_of (color_types 2) = JString ''g''"
    by (simp_all add: color_types_at blank_type_def value_of_def)
  from variants_agree_on_primitives_and_enums [of "\<lambda>r. string_type" 0 0 True 0]
    variants_agree_on_primitives_and_enums [of color_types 0 0 True 0] s c v
  show ?thesis by (simp add: type_is_def)
qed

end
